theory Spec2Isabelle
  imports Main "HOL-Library.Sublist"
begin

section \<open>Python values used by the hook\<close>

text \<open>
  The hook \<^verbatim>\<open>hooks/socialmedia.py\<close> rewrites rendered HTML. A Python \<^verbatim>\<open>str\<close> is a
  sequence of Unicode code points, so a string is modelled as the list of its code
  points (numbers below \<open>0x110000\<close>); \<open>S\<close> turns a literal of the source into that list.
  The page and configuration objects come from the host (MkDocs) and are dynamically
  typed: a setting or a page attribute holds a string or \<^verbatim>\<open>None\<close> (MkDocs stores an
  optional setting that \<^verbatim>\<open>mkdocs.yml\<close> leaves out, such as \<^verbatim>\<open>site_url\<close> or
  \<^verbatim>\<open>site_description\<close>, under its key with the value \<^verbatim>\<open>None\<close>). A dictionary is an
  association list read with \<open>map_of\<close>.
\<close>

type_synonym pystr = "nat list"

definition S :: "string \<Rightarrow> pystr" where
  "S = map of_char"

definition is_pystr :: "pystr \<Rightarrow> bool" where
  "is_pystr s \<longleftrightarrow> (\<forall>c \<in> set s. c < 0x110000)"

datatype pyval = PyNone | PyStr pystr

datatype pyerr = AttributeError | UnicodeEncodeError

type_synonym pydict = "(pystr \<times> pyval) list"

record pyfile =
  src_uri :: pystr

text \<open>
  \<open>meta\<close> is \<open>None\<close> when the page object has no usable \<^verbatim>\<open>meta\<close> attribute (the
  \<^verbatim>\<open>hasattr\<close> test fails or the attribute is \<^verbatim>\<open>None\<close>).
\<close>

record page =
  page_file :: pyfile
  url :: pystr
  title :: pyval
  meta :: "pydict option"

text \<open>Truth value of an object, \<^verbatim>\<open>a or b\<close>, and the rendering of \<^verbatim>\<open>{x}\<close> in an f-string.\<close>

fun truthy :: "pyval \<Rightarrow> bool" where
  "truthy PyNone = False"
| "truthy (PyStr s) = (s \<noteq> [])"

definition py_or :: "pyval \<Rightarrow> pyval \<Rightarrow> pyval" where
  "py_or a b = (if truthy a then a else b)"

fun fmt :: "pyval \<Rightarrow> pystr" where
  "fmt PyNone = S ''None''"
| "fmt (PyStr s) = s"

text \<open>\<^verbatim>\<open>d.get(key, default)\<close>.\<close>

definition get :: "pydict \<Rightarrow> pystr \<Rightarrow> pyval \<Rightarrow> pyval" where
  "get d key dflt = (case map_of d key of None \<Rightarrow> dflt | Some v \<Rightarrow> v)"

subsection \<open>String methods\<close>

definition startswith :: "pystr \<Rightarrow> pystr \<Rightarrow> bool" where
  "startswith s p = (take (length p) s = p)"

definition lstrip :: "pystr \<Rightarrow> pystr \<Rightarrow> pystr" where
  "lstrip s chars = dropWhile (\<lambda>c. c \<in> set chars) s"

definition rstrip :: "pystr \<Rightarrow> pystr \<Rightarrow> pystr" where
  "rstrip s chars = rev (dropWhile (\<lambda>c. c \<in> set chars) (rev s))"

text \<open>\<^verbatim>\<open>x.rstrip(chars)\<close> on an object: \<^verbatim>\<open>None\<close> has no such attribute.\<close>

fun rstrip_of :: "pyval \<Rightarrow> pystr \<Rightarrow> pyerr + pystr" where
  "rstrip_of PyNone chars = Inl AttributeError"
| "rstrip_of (PyStr s) chars = Inr (rstrip s chars)"

text \<open>\<^verbatim>\<open>sub in s\<close> and \<^verbatim>\<open>s.replace(old, new, 1)\<close> (the leftmost occurrence only).\<close>

fun contains :: "pystr \<Rightarrow> pystr \<Rightarrow> bool" where
  "contains sub [] = (sub = [])"
| "contains sub (c # cs) = (startswith (c # cs) sub \<or> contains sub cs)"

fun replace1 :: "pystr \<Rightarrow> pystr \<Rightarrow> pystr \<Rightarrow> pystr" where
  "replace1 [] old new = (if old = [] then new else [])"
| "replace1 (c # cs) old new =
     (if startswith (c # cs) old then new @ drop (length old) (c # cs)
      else c # replace1 cs old new)"

subsection \<open>\<^verbatim>\<open>urllib.parse.quote\<close>\<close>

text \<open>
  \<^verbatim>\<open>quote(string, safe)\<close> encodes the string as UTF-8 with strict error handling (a lone
  surrogate raises \<^verbatim>\<open>UnicodeEncodeError\<close>) and then keeps every byte that is in
  \<^verbatim>\<open>_ALWAYS_SAFE\<close> or in \<^verbatim>\<open>safe\<close> and writes every other byte as \<^verbatim>\<open>'%{:02X}'\<close>.
\<close>

definition utf8_encode_cp :: "nat \<Rightarrow> pyerr + nat list" where
  "utf8_encode_cp c =
     (if c < 0x80 then Inr [c]
      else if c < 0x800 then Inr [0xC0 + c div 0x40, 0x80 + c mod 0x40]
      else if 0xD800 \<le> c \<and> c < 0xE000 then Inl UnicodeEncodeError
      else if c < 0x10000 then
        Inr [0xE0 + c div 0x1000, 0x80 + c div 0x40 mod 0x40, 0x80 + c mod 0x40]
      else
        Inr [0xF0 + c div 0x40000, 0x80 + c div 0x1000 mod 0x40,
             0x80 + c div 0x40 mod 0x40, 0x80 + c mod 0x40])"

fun encode_utf8 :: "pystr \<Rightarrow> pyerr + nat list" where
  "encode_utf8 [] = Inr []"
| "encode_utf8 (c # cs) =
     (case utf8_encode_cp c of
        Inl e \<Rightarrow> Inl e
      | Inr bs \<Rightarrow> (case encode_utf8 cs of Inl e \<Rightarrow> Inl e | Inr rest \<Rightarrow> Inr (bs @ rest)))"

definition always_safe :: "nat list" where
  "always_safe =
     S ''ABCDEFGHIJKLMNOPQRSTUVWXYZ'' @ S ''abcdefghijklmnopqrstuvwxyz'' @
     S ''0123456789'' @ S ''_.-~''"

definition hex_upper :: "nat \<Rightarrow> nat" where
  "hex_upper d = (if d < 10 then 48 + d else 55 + d)"

definition quoter :: "pystr \<Rightarrow> nat \<Rightarrow> pystr" where
  "quoter safe b =
     (if b \<in> set always_safe \<or> b \<in> set (filter (\<lambda>c. c < 128) safe) then [b]
      else S ''%'' @ [hex_upper (b div 16), hex_upper (b mod 16)])"

definition quote_from_bytes :: "nat list \<Rightarrow> pystr \<Rightarrow> pystr" where
  "quote_from_bytes bs safe = concat (map (quoter safe) bs)"

definition quote :: "pystr \<Rightarrow> pystr \<Rightarrow> pyerr + pystr" where
  "quote string safe =
     (case encode_utf8 string of
        Inl e \<Rightarrow> Inl e
      | Inr bs \<Rightarrow> Inr (quote_from_bytes bs safe))"

subsection \<open>\<^verbatim>\<open>urllib.parse.unquote\<close>\<close>

text \<open>
  The inverse of \<open>quote\<close> in the library is \<^verbatim>\<open>unquote\<close>. On a string of ASCII
  characters it replaces every \<^verbatim>\<open>%XX\<close> (two hexadecimal digits of either case) by the
  byte it denotes, leaves every other character as the byte of the same number, and
  decodes the bytes as UTF-8. The library decodes with \<^verbatim>\<open>errors='replace'\<close>; the
  model decodes strictly and answers \<open>None\<close> where the library would substitute
  U+FFFD, and also for an argument with a character outside ASCII, which the library
  copies through. Neither happens on a value that \<open>quote\<close> returned.
\<close>

definition hex_value :: "nat \<Rightarrow> nat option" where
  "hex_value c =
     (if 48 \<le> c \<and> c \<le> 57 then Some (c - 48)
      else if 65 \<le> c \<and> c \<le> 70 then Some (c - 55)
      else if 97 \<le> c \<and> c \<le> 102 then Some (c - 87)
      else None)"

fun unquote_to_bytes :: "pystr \<Rightarrow> nat list" where
  "unquote_to_bytes (p # a # b # rest) =
     (if p = 37 \<and> hex_value a \<noteq> None \<and> hex_value b \<noteq> None
      then (16 * the (hex_value a) + the (hex_value b)) # unquote_to_bytes rest
      else p # unquote_to_bytes (a # b # rest))"
| "unquote_to_bytes bs = bs"

definition is_cont :: "nat \<Rightarrow> bool" where
  "is_cont b \<longleftrightarrow> 0x80 \<le> b \<and> b < 0xC0"

fun utf8_decode :: "nat list \<Rightarrow> pystr option" where
  "utf8_decode [] = Some []"
| "utf8_decode (b0 # bs) =
     (if b0 < 0x80 then map_option ((#) b0) (utf8_decode bs)
      else if 0xC2 \<le> b0 \<and> b0 < 0xE0 then
        (case bs of
           b1 # r \<Rightarrow>
             if is_cont b1
             then map_option ((#) ((b0 - 0xC0) * 0x40 + (b1 - 0x80))) (utf8_decode r)
             else None
         | _ \<Rightarrow> None)
      else if 0xE0 \<le> b0 \<and> b0 < 0xF0 then
        (case bs of
           b1 # b2 # r \<Rightarrow>
             (let c = (b0 - 0xE0) * 0x1000 + (b1 - 0x80) * 0x40 + (b2 - 0x80)
              in if is_cont b1 \<and> is_cont b2 \<and> 0x800 \<le> c \<and> \<not> (0xD800 \<le> c \<and> c < 0xE000)
                 then map_option ((#) c) (utf8_decode r)
                 else None)
         | _ \<Rightarrow> None)
      else if 0xF0 \<le> b0 \<and> b0 < 0xF5 then
        (case bs of
           b1 # b2 # b3 # r \<Rightarrow>
             (let c = (b0 - 0xF0) * 0x40000 + (b1 - 0x80) * 0x1000 + (b2 - 0x80) * 0x40
                      + (b3 - 0x80)
              in if is_cont b1 \<and> is_cont b2 \<and> is_cont b3 \<and> 0x10000 \<le> c \<and> c < 0x110000
                 then map_option ((#) c) (utf8_decode r)
                 else None)
         | _ \<Rightarrow> None)
      else None)"

definition unquote :: "pystr \<Rightarrow> pystr option" where
  "unquote string =
     (if list_all (\<lambda>c. c < 128) string then utf8_decode (unquote_to_bytes string)
      else None)"

section \<open>The hook\<close>

subsection \<open>\<^verbatim>\<open>on_page_content\<close>\<close>

text \<open>
  The local variables of the function are definitions of their own, named after the
  function and the variable. \<open>on_page_content_page_url\<close> is
  \<^verbatim>\<open>site_url = config.get("site_url", "").rstrip("/")\<close> followed by
  \<^verbatim>\<open>page_url = f"{site_url}/{page.url.lstrip('/')}" if site_url else page.url\<close>.
\<close>

definition on_page_content_page_url :: "page \<Rightarrow> pydict \<Rightarrow> pyerr + pystr" where
  "on_page_content_page_url page config =
     (case rstrip_of (get config (S ''site_url'') (PyStr (S ''''))) (S ''/'') of
        Inl e \<Rightarrow> Inl e
      | Inr site_url \<Rightarrow>
          Inr (if site_url \<noteq> [] then site_url @ S ''/'' @ lstrip (url page) (S ''/'')
               else url page))"

definition on_page_content_page_title :: "page \<Rightarrow> pyval" where
  "on_page_content_page_title page = py_or (title page) (PyStr (S ''Check out this post''))"

definition on_page_content_page_description :: "page \<Rightarrow> pydict \<Rightarrow> pyval" where
  "on_page_content_page_description page config =
     (let page_description = PyStr (S '''');
          page_description =
            (case meta page of
               None \<Rightarrow> page_description
             | Some m \<Rightarrow>
                 if m \<noteq> [] then get m (S ''description'') (PyStr (S ''''))
                 else page_description)
      in if \<not> truthy page_description then get config (S ''site_description'') (PyStr (S ''''))
         else page_description)"

definition linkedin_share_url :: "pystr \<Rightarrow> pystr" where
  "linkedin_share_url encoded_url =
     S ''https://www.linkedin.com/sharing/share-offsite/?url='' @ encoded_url"

definition share_button_html :: "pystr \<Rightarrow> pystr" where
  \<open>share_button_html share_url =
     S ''\<newline>'' @
     S ''<div class="social-share-container" style="margin-top: 2rem; padding: 1.5rem; border-top: 2px solid var(--md-default-fg-color--lightest); text-align: center;">\<newline>'' @
     S ''    <p style="margin-bottom: 1rem; color: var(--md-default-fg-color--light); font-size: 0.9rem;">\<newline>'' @
     S ''        <strong>Found this helpful? Share it on LinkedIn!</strong>\<newline>'' @
     S ''    </p>\<newline>'' @
     S ''    <a href="'' @
     share_url @
     S ''" \<newline>'' @
     S ''       target="_blank" \<newline>'' @
     S ''       rel="noopener noreferrer"\<newline>'' @
     S ''       class="linkedin-share-button"\<newline>'' @
     S ''       style="display: inline-flex; align-items: center; gap: 0.5rem; padding: 0.75rem 1.5rem; \<newline>'' @
     S ''              background-color: #0A66C2; color: white; text-decoration: none; \<newline>'' @
     S ''              border-radius: 4px; font-weight: 500; transition: background-color 0.3s ease;\<newline>'' @
     S ''              box-shadow: 0 2px 4px rgba(0,0,0,0.1);"\<newline>'' @
     S ''       onmouseover="this.style.backgroundColor='#004182'"\<newline>'' @
     S ''       onmouseout="this.style.backgroundColor='#0A66C2'">\<newline>'' @
     S ''        <svg xmlns="http://www.w3.org/2000/svg" width="20" height="20" viewBox="0 0 24 24" fill="currentColor">\<newline>'' @
     S ''            <path d="M19 0h-14c-2.761 0-5 2.239-5 5v14c0 2.761 2.239 5 5 5h14c2.762 0 5-2.239 5-5v-14c0-2.761-2.238-5-5-5zm-11 19h-3v-11h3v11zm-1.5-12.268c-.966 0-1.75-.79-1.75-1.764s.784-1.764 1.75-1.764 1.75.79 1.75 1.764-.783 1.764-1.75 1.764zm13.5 12.268h-3v-5.604c0-3.368-4-3.113-4 0v5.604h-3v-11h3v1.765c1.396-2.586 7-2.777 7 2.476v6.759z"/>\<newline>'' @
     S ''        </svg>\<newline>'' @
     S ''        Share on LinkedIn\<newline>'' @
     S ''    </a>\<newline>'' @
     S ''</div>\<newline>'' @
     S ''\<newline>'' @
     S ''<style>\<newline>'' @
     S ''    .linkedin-share-button:hover {\<newline>'' @
     S ''        transform: translateY(-2px);\<newline>'' @
     S ''        box-shadow: 0 4px 8px rgba(0,0,0,0.15);\<newline>'' @
     S ''    }\<newline>'' @
     S ''    \<newline>'' @
     S ''    @media (max-width: 768px) {\<newline>'' @
     S ''        .social-share-container {\<newline>'' @
     S ''            padding: 1rem;\<newline>'' @
     S ''        }\<newline>'' @
     S ''        .linkedin-share-button {\<newline>'' @
     S ''            width: 100%;\<newline>'' @
     S ''            justify-content: center;\<newline>'' @
     S ''        }\<newline>'' @
     S ''    }\<newline>'' @
     S ''</style>\<newline>''\<close>

text \<open>
  The function returns the new HTML; the model returns it together with the lines
  written to the log. \<^verbatim>\<open>files\<close> is not used.
\<close>

definition on_page_content ::
  "pystr \<Rightarrow> page \<Rightarrow> pydict \<Rightarrow> 'f \<Rightarrow> pyerr + (pystr \<times> pystr list)" where
  "on_page_content html page config files =
     (if startswith (src_uri (page_file page)) (S ''posts/'') then
        (case on_page_content_page_url page config of
           Inl e \<Rightarrow> Inl e
         | Inr page_url \<Rightarrow>
             (let page_title = on_page_content_page_title page;
                  page_description = on_page_content_page_description page config
              in case quote page_url (S '''') of
                   Inl e \<Rightarrow> Inl e
                 | Inr encoded_url \<Rightarrow>
                     Inr (html @ share_button_html (linkedin_share_url encoded_url),
                          [S ''Added LinkedIn share button to: '' @ src_uri (page_file page)])))
      else Inr (html, []))"

subsection \<open>\<^verbatim>\<open>on_post_page\<close>\<close>

definition on_post_page_page_url :: "page \<Rightarrow> pydict \<Rightarrow> pyerr + pystr" where
  "on_post_page_page_url page config =
     (case rstrip_of (get config (S ''site_url'') (PyStr (S ''''))) (S ''/'') of
        Inl e \<Rightarrow> Inl e
      | Inr site_url \<Rightarrow>
          Inr (if site_url \<noteq> [] then site_url @ S ''/'' @ url page else url page))"

definition on_post_page_page_title :: "page \<Rightarrow> pydict \<Rightarrow> pyval" where
  "on_post_page_page_title page config =
     py_or (title page) (get config (S ''site_name'') (PyStr (S ''Blog Post'')))"

definition on_post_page_page_description :: "page \<Rightarrow> pydict \<Rightarrow> pyval" where
  "on_post_page_page_description page config =
     (let page_description = get config (S ''site_description'') (PyStr (S ''''))
      in case meta page of
           None \<Rightarrow> page_description
         | Some m \<Rightarrow>
             if m \<noteq> [] then get m (S ''description'') page_description
             else page_description)"

definition og_tags :: "pystr \<Rightarrow> pyval \<Rightarrow> pyval \<Rightarrow> pyval \<Rightarrow> pystr" where
  \<open>og_tags page_url page_title page_description site_name =
     S ''\<newline>'' @
     S ''    <!-- Open Graph / LinkedIn meta tags -->\<newline>'' @
     S ''    <meta property="og:type" content="article" />\<newline>'' @
     S ''    <meta property="og:url" content="'' @
     page_url @
     S ''" />\<newline>'' @
     S ''    <meta property="og:title" content="'' @
     fmt page_title @
     S ''" />\<newline>'' @
     S ''    <meta property="og:description" content="'' @
     fmt page_description @
     S ''" />\<newline>'' @
     S ''    <meta property="og:site_name" content="'' @
     fmt site_name @
     S ''" />\<newline>'' @
     S ''    \<newline>'' @
     S ''    <!-- Twitter Card meta tags (also used by LinkedIn) -->\<newline>'' @
     S ''    <meta name="twitter:card" content="summary_large_image" />\<newline>'' @
     S ''    <meta name="twitter:title" content="'' @
     fmt page_title @
     S ''" />\<newline>'' @
     S ''    <meta name="twitter:description" content="'' @
     fmt page_description @
     S ''" />\<newline>''\<close>

definition on_post_page :: "pystr \<Rightarrow> page \<Rightarrow> pydict \<Rightarrow> pyerr + (pystr \<times> pystr list)" where
  "on_post_page output page config =
     (if startswith (src_uri (page_file page)) (S ''posts/'') then
        (case on_post_page_page_url page config of
           Inl e \<Rightarrow> Inl e
         | Inr page_url \<Rightarrow>
             (let page_title = on_post_page_page_title page config;
                  page_description = on_post_page_page_description page config;
                  tags = og_tags page_url page_title page_description
                           (get config (S ''site_name'') (PyStr (S '''')))
              in if contains (S ''<head>'') output then
                   Inr (replace1 output (S ''<head>'') (S ''<head>'' @ tags),
                        [S ''Added Open Graph meta tags to: '' @ src_uri (page_file page)])
                 else Inr (output, [])))
      else Inr (output, []))"

section \<open>Example inputs\<close>

definition index_page :: page where
  "index_page =
     \<lparr>page_file = \<lparr>src_uri = S ''index.md''\<rparr>, url = S '''', title = PyStr (S ''Home''),
      meta = None\<rparr>"

definition hello_post :: page where
  "hello_post =
     \<lparr>page_file = \<lparr>src_uri = S ''posts/hello.md''\<rparr>, url = S ''/posts/hello/'',
      title = PyStr (S ''Hello''), meta = None\<rparr>"

definition untitled_post :: page where
  "untitled_post =
     \<lparr>page_file = \<lparr>src_uri = S ''posts/hello.md''\<rparr>, url = S ''/posts/hello/'',
      title = PyNone, meta = Some [(S ''description'', PyStr (S ''A first post''))]\<rparr>"

definition bare_post :: page where
  "bare_post =
     \<lparr>page_file = \<lparr>src_uri = S ''posts/hello.md''\<rparr>, url = S ''posts/hello/'',
      title = PyStr (S ''Hello''), meta = None\<rparr>"

definition blog_config :: pydict where
  "blog_config = [(S ''site_url'', PyStr (S ''https://blog.example''))]"

definition my_blog_config :: pydict where
  "my_blog_config = [(S ''site_name'', PyStr (S ''My Blog''))]"

definition slash_config :: pydict where
  "slash_config = [(S ''site_url'', PyStr (S ''/''))]"

text \<open>A configuration as MkDocs builds it when \<^verbatim>\<open>mkdocs.yml\<close> sets only \<^verbatim>\<open>site_name\<close>.\<close>

definition unset_config :: pydict where
  "unset_config =
     [(S ''site_name'', PyStr (S ''My Docs'')), (S ''site_url'', PyNone),
      (S ''site_description'', PyNone)]"

section \<open>Notions used to state the properties\<close>

text \<open>
  A code point in the surrogate range has no UTF-8 encoding: \<open>quote\<close> raises on a string
  that holds one. \<open>reserved\<close> is the set of reserved characters of RFC 3986
  (\<^verbatim>\<open>gen-delims\<close> followed by \<^verbatim>\<open>sub-delims\<close>).
\<close>

definition lone_surrogate :: "nat \<Rightarrow> bool" where
  "lone_surrogate c \<longleftrightarrow> 0xD800 \<le> c \<and> c < 0xE000"

definition reserved :: pystr where
  "reserved = S '':/?#[]@'' @ S ''!$&'()*+,;=''"

text \<open>
  The markup contract of the specification for the block that \<^verbatim>\<open>on_post_page\<close> inserts,
  written from the specification and not from the template of the source: a comment,
  the five Open Graph properties, a blank line, a comment and the three Twitter card
  tags, one \<^verbatim>\<open>meta\<close> element on each line, every content attribute holding its value as
  it is.
\<close>

definition spec_meta_tag :: "string \<Rightarrow> string \<Rightarrow> pystr \<Rightarrow> pystr" where
  \<open>spec_meta_tag attr name content =
     S ''<meta '' @ S attr @ S ''="'' @ S name @ S ''" content="'' @ content @ S ''" />''\<close>

definition spec_og_block :: "pystr \<Rightarrow> pystr \<Rightarrow> pystr \<Rightarrow> pystr \<Rightarrow> pystr" where
  \<open>spec_og_block page_url page_title page_description site_name =
     S ''\<newline>'' @
     S ''    <!-- Open Graph / LinkedIn meta tags -->\<newline>'' @
     concat (map (\<lambda>(name, content). S ''    '' @ spec_meta_tag ''property'' name content @ S ''\<newline>'')
       [(''og:type'', S ''article''),
        (''og:url'', page_url),
        (''og:title'', page_title),
        (''og:description'', page_description),
        (''og:site_name'', site_name)]) @
     S ''    \<newline>'' @
     S ''    <!-- Twitter Card meta tags (also used by LinkedIn) -->\<newline>'' @
     concat (map (\<lambda>(name, content). S ''    '' @ spec_meta_tag ''name'' name content @ S ''\<newline>'')
       [(''twitter:card'', S ''summary_large_image''),
        (''twitter:title'', page_title),
        (''twitter:description'', page_description)])\<close>

text \<open>Two more example inputs.\<close>

definition markup_post :: page where
  \<open>markup_post =
     \<lparr>page_file = \<lparr>src_uri = S ''posts/markup.md''\<rparr>, url = S ''posts/markup/'',
      title = PyStr (S ''<b>"A&B"</b>''), meta = None\<rparr>\<close>

definition described_config :: pydict where
  "described_config =
     [(S ''site_description'', PyStr (S ''Notes on data engineering'')),
      (S ''site_url'', PyStr (S ''https://blog.example''))]"

text \<open>A configuration with a site URL and no description, as MkDocs builds it.\<close>

definition undescribed_config :: pydict where
  "undescribed_config =
     [(S ''site_name'', PyStr (S ''My Docs'')), (S ''site_url'', PyStr (S ''https://blog.example'')),
      (S ''site_description'', PyNone)]"

text \<open>A post whose title is the empty string, and configurations with an empty site name
  and with a site name entry that holds \<^verbatim>\<open>None\<close>.\<close>

definition empty_title_post :: page where
  "empty_title_post =
     \<lparr>page_file = \<lparr>src_uri = S ''posts/hello.md''\<rparr>, url = S ''/posts/hello/'',
      title = PyStr (S ''''), meta = None\<rparr>"

definition empty_name_config :: pydict where
  "empty_name_config = [(S ''site_name'', PyStr (S ''''))]"

definition none_name_config :: pydict where
  "none_name_config = [(S ''site_name'', PyNone)]"

section \<open>String methods: what they compute\<close>

lemma startswith_iff: "startswith s p \<longleftrightarrow> (\<exists>t. s = p @ t)"
proof
  assume "startswith s p"
  then have "s = p @ drop (length p) s"
    unfolding startswith_def by (metis append_take_drop_id)
  then show "\<exists>t. s = p @ t" ..
next
  assume "\<exists>t. s = p @ t"
  then show "startswith s p" by (auto simp: startswith_def)
qed

lemma contains_iff: "contains sub s \<longleftrightarrow> (\<exists>pre post. s = pre @ sub @ post)"
proof (induction s)
  case Nil
  then show ?case by auto
next
  case (Cons c cs)
  show ?case
  proof
    assume "contains sub (c # cs)"
    then consider "startswith (c # cs) sub" | "contains sub cs" by auto
    then show "\<exists>pre post. c # cs = pre @ sub @ post"
    proof cases
      case 1
      then obtain t where "c # cs = sub @ t" by (auto simp: startswith_iff)
      then have "c # cs = [] @ sub @ t" by simp
      then show ?thesis by blast
    next
      case 2
      with Cons.IH obtain pre post where "cs = pre @ sub @ post" by auto
      then have "c # cs = (c # pre) @ sub @ post" by simp
      then show ?thesis by blast
    qed
  next
    assume "\<exists>pre post. c # cs = pre @ sub @ post"
    then obtain pre post where e: "c # cs = pre @ sub @ post" by auto
    show "contains sub (c # cs)"
    proof (cases pre)
      case Nil
      with e have "startswith (c # cs) sub" by (auto simp: startswith_iff)
      then show ?thesis by simp
    next
      case (Cons a pre')
      with e have "cs = pre' @ sub @ post" by simp
      with Cons.IH have "contains sub cs" by blast
      then show ?thesis by simp
    qed
  qed
qed

text \<open>The leftmost occurrence is the one replaced.\<close>

lemma replace1_first:
  "contains old s \<Longrightarrow>
   \<exists>pre post. s = pre @ old @ post \<and> (\<forall>i < length pre. \<not> startswith (drop i s) old) \<and>
              replace1 s old new = pre @ new @ post"
proof (induction s)
  case Nil
  then have "old = []" by simp
  then have "[] = [] @ old @ [] \<and> (\<forall>i < length ([]::pystr). \<not> startswith (drop i []) old) \<and>
     replace1 [] old new = [] @ new @ []" by simp
  then show ?case by blast
next
  case (Cons c cs)
  show ?case
  proof (cases "startswith (c # cs) old")
    case True
    then have "c # cs = [] @ old @ drop (length old) (c # cs)"
      unfolding startswith_def by (metis append_Nil append_take_drop_id)
    moreover have "replace1 (c # cs) old new = [] @ new @ drop (length old) (c # cs)"
      using True by simp
    ultimately show ?thesis
      by (metis length_greater_0_conv less_nat_zero_code list.size(3))
  next
    case False
    with Cons.prems have "contains old cs" by simp
    from Cons.IH [OF this] obtain pre post where
      p: "cs = pre @ old @ post" "\<forall>i < length pre. \<not> startswith (drop i cs) old"
        "replace1 cs old new = pre @ new @ post" by blast
    have "c # cs = (c # pre) @ old @ post" using p(1) by simp
    moreover have "\<forall>i < length (c # pre). \<not> startswith (drop i (c # cs)) old"
    proof (intro allI impI)
      fix i assume "i < length (c # pre)"
      then show "\<not> startswith (drop i (c # cs)) old"
        using False p(2) by (cases i) auto
    qed
    moreover have "replace1 (c # cs) old new = (c # pre) @ new @ post"
      using False p(3) by simp
    ultimately show ?thesis by blast
  qed
qed

lemma replace1_absent: "\<not> contains old s \<Longrightarrow> replace1 s old new = s"
  by (induction s) auto

lemma rstrip_decomp:
  "\<exists>t. s = rstrip s cs @ t \<and> set t \<subseteq> set cs \<and>
       (rstrip s cs = [] \<or> last (rstrip s cs) \<notin> set cs)"
proof -
  let ?P = "\<lambda>c. c \<in> set cs"
  have "rev s = takeWhile ?P (rev s) @ dropWhile ?P (rev s)" by simp
  then have "s = rev (dropWhile ?P (rev s)) @ rev (takeWhile ?P (rev s))"
    by (metis rev_append rev_rev_ident)
  moreover have "set (rev (takeWhile ?P (rev s))) \<subseteq> set cs"
    by (auto dest: set_takeWhileD)
  moreover have "dropWhile ?P (rev s) = [] \<or> \<not> ?P (hd (dropWhile ?P (rev s)))"
    by (metis hd_dropWhile)
  then have "rstrip s cs = [] \<or> last (rstrip s cs) \<notin> set cs"
    unfolding rstrip_def by (auto simp: last_rev)
  ultimately show ?thesis unfolding rstrip_def by blast
qed

lemma lstrip_decomp:
  "\<exists>t. s = t @ lstrip s cs \<and> set t \<subseteq> set cs \<and>
       (lstrip s cs = [] \<or> hd (lstrip s cs) \<notin> set cs)"
proof -
  let ?P = "\<lambda>c. c \<in> set cs"
  have "s = takeWhile ?P s @ dropWhile ?P s" by simp
  moreover have "set (takeWhile ?P s) \<subseteq> set cs" by (auto dest: set_takeWhileD)
  moreover have "dropWhile ?P s = [] \<or> \<not> ?P (hd (dropWhile ?P s))"
    by (metis hd_dropWhile)
  ultimately show ?thesis unfolding lstrip_def by blast
qed

lemma rstrip_empty_iff: "rstrip s cs = [] \<longleftrightarrow> set s \<subseteq> set cs"
  unfolding rstrip_def by (auto simp: dropWhile_eq_Nil_conv)

text \<open>Reading \<^verbatim>\<open>site_url\<close> from the configuration.\<close>

lemma get_site_url_cases:
  "map_of config (S ''site_url'') = Some (PyStr site) \<Longrightarrow>
     get config (S ''site_url'') dflt = PyStr site"
  "map_of config (S ''site_url'') = None \<Longrightarrow> get config (S ''site_url'') dflt = dflt"
  by (simp_all add: get_def)

section \<open>Percent-encoding and its inverse\<close>

lemma hex_value_hex_upper: "d < 16 \<Longrightarrow> hex_value (hex_upper d) = Some d"
  by (auto simp: hex_value_def hex_upper_def)

lemma always_safe_all:
  "list_all (\<lambda>b. (65 \<le> b \<and> b \<le> 90) \<or> (97 \<le> b \<and> b \<le> 122) \<or> (48 \<le> b \<and> b \<le> 57) \<or>
     b = 95 \<or> b = 46 \<or> b = 45 \<or> b = 126) always_safe"
  by (simp add: always_safe_def S_def)

lemma always_safe_range:
  "b \<in> set always_safe \<Longrightarrow>
     (65 \<le> b \<and> b \<le> 90) \<or> (97 \<le> b \<and> b \<le> 122) \<or> (48 \<le> b \<and> b \<le> 57) \<or>
     b = 95 \<or> b = 46 \<or> b = 45 \<or> b = 126"
  using always_safe_all unfolding list_all_iff by blast

lemma unquote_to_bytes_plain:
  "p \<noteq> 37 \<Longrightarrow> unquote_to_bytes (p # bs) = p # unquote_to_bytes bs"
  by (cases "(p # bs)" rule: unquote_to_bytes.cases) auto

lemma unquote_to_bytes_quoter:
  assumes "b < 256"
  shows "unquote_to_bytes (quoter [] b @ rest) = b # unquote_to_bytes rest"
proof (cases "b \<in> set always_safe")
  case True
  then have "b \<noteq> 37" by (auto dest: always_safe_range)
  with True show ?thesis by (simp add: quoter_def unquote_to_bytes_plain)
next
  case False
  have "b div 16 < 16" "b mod 16 < 16" using assms by auto
  then have "hex_value (hex_upper (b div 16)) = Some (b div 16)"
    "hex_value (hex_upper (b mod 16)) = Some (b mod 16)"
    by (simp_all add: hex_value_hex_upper)
  with False show ?thesis by (simp add: quoter_def S_def)
qed

lemma unquote_to_bytes_quote_from_bytes:
  "list_all (\<lambda>b. b < 256) bs \<Longrightarrow> unquote_to_bytes (quote_from_bytes bs []) = bs"
  by (induction bs) (simp_all add: quote_from_bytes_def unquote_to_bytes_quoter)

lemma split3: "(c::nat) div 0x1000 * 0x1000 + c div 0x40 mod 0x40 * 0x40 + c mod 0x40 = c"
proof -
  have a: "c div 0x1000 = c div 0x40 div 0x40" by (simp add: div_mult2_eq)
  have b: "c div 0x40 div 0x40 * 0x40 + c div 0x40 mod 0x40 = c div 0x40" by (rule div_mult_mod_eq)
  have d: "c div 0x40 * 0x40 + c mod 0x40 = c" by (rule div_mult_mod_eq)
  show ?thesis unfolding a using b d by linarith
qed

lemma split4: "(c::nat) div 0x40000 * 0x40000 + c div 0x1000 mod 0x40 * 0x1000
                   + c div 0x40 mod 0x40 * 0x40 + c mod 0x40 = c"
proof -
  have a: "c div 0x40000 = c div 0x1000 div 0x40" by (simp add: div_mult2_eq)
  have b: "c div 0x1000 div 0x40 * 0x40 + c div 0x1000 mod 0x40 = c div 0x1000" by (rule div_mult_mod_eq)
  show ?thesis unfolding a using b split3 [of c] by linarith
qed

lemma utf8_decode_2:
  assumes "2 \<le> q" "q < 0x20" "r < 0x40"
  shows "utf8_decode ((0xC0 + q) # (0x80 + r) # rest) =
         map_option ((#) (q * 0x40 + r)) (utf8_decode rest)"
  using assms by (simp add: is_cont_def)

lemma utf8_decode_3:
  assumes "q < 0x10" "r1 < 0x40" "r2 < 0x40" "0x800 \<le> q * 0x1000 + r1 * 0x40 + r2"
    "\<not> (0xD800 \<le> q * 0x1000 + r1 * 0x40 + r2 \<and> q * 0x1000 + r1 * 0x40 + r2 < 0xE000)"
  shows "utf8_decode ((0xE0 + q) # (0x80 + r1) # (0x80 + r2) # rest) =
         map_option ((#) (q * 0x1000 + r1 * 0x40 + r2)) (utf8_decode rest)"
  using assms by (simp add: is_cont_def Let_def)

lemma utf8_decode_4:
  assumes "q < 5" "r1 < 0x40" "r2 < 0x40" "r3 < 0x40"
    "0x10000 \<le> q * 0x40000 + r1 * 0x1000 + r2 * 0x40 + r3"
    "q * 0x40000 + r1 * 0x1000 + r2 * 0x40 + r3 < 0x110000"
  shows "utf8_decode ((0xF0 + q) # (0x80 + r1) # (0x80 + r2) # (0x80 + r3) # rest) =
         map_option ((#) (q * 0x40000 + r1 * 0x1000 + r2 * 0x40 + r3)) (utf8_decode rest)"
  using assms by (simp add: is_cont_def Let_def)

lemma bytes_2: "(q::nat) < 0x20 \<Longrightarrow> r < 0x40 \<Longrightarrow> list_all (\<lambda>b. b < 256) [0xC0 + q, 0x80 + r]"
  by simp

lemma bytes_3:
  "(q::nat) < 0x10 \<Longrightarrow> r1 < 0x40 \<Longrightarrow> r2 < 0x40 \<Longrightarrow>
   list_all (\<lambda>b. b < 256) [0xE0 + q, 0x80 + r1, 0x80 + r2]"
  by simp

lemma bytes_4:
  "(q::nat) < 5 \<Longrightarrow> r1 < 0x40 \<Longrightarrow> r2 < 0x40 \<Longrightarrow> r3 < 0x40 \<Longrightarrow>
   list_all (\<lambda>b. b < 256) [0xF0 + q, 0x80 + r1, 0x80 + r2, 0x80 + r3]"
  by simp

lemma utf8_decode_encode_cp:
  assumes "utf8_encode_cp c = Inr bs" and "c < 0x110000"
  shows "utf8_decode (bs @ rest) = map_option ((#) c) (utf8_decode rest) \<and>
         list_all (\<lambda>b. b < 256) bs"
proof -
  consider (one) "c < 0x80" | (two) "0x80 \<le> c" "c < 0x800"
    | (three) "0x800 \<le> c" "c < 0x10000" | (four) "0x10000 \<le> c"
    by linarith
  then show ?thesis
  proof cases
    case one
    with assms(1) have "bs = [c]" by (simp add: utf8_encode_cp_def)
    with one show ?thesis by simp
  next
    case two
    with assms(1) have bs: "bs = [0xC0 + c div 0x40, 0x80 + c mod 0x40]"
      by (simp add: utf8_encode_cp_def)
    have q: "2 \<le> c div 0x40" "c div 0x40 < 0x20" using two by simp_all
    have r: "c mod 0x40 < 0x40" by simp
    have c: "c div 0x40 * 0x40 + c mod 0x40 = c" by (rule div_mult_mod_eq)
    have "utf8_decode (bs @ rest) =
          map_option ((#) (c div 0x40 * 0x40 + c mod 0x40)) (utf8_decode rest)"
      unfolding bs append.simps by (rule utf8_decode_2 [OF q r])
    moreover have "list_all (\<lambda>b. b < 256) bs"
      unfolding bs by (rule bytes_2 [OF q(2) r])
    ultimately show ?thesis by (simp only: c)
  next
    case three
    with assms(1) have ns: "\<not> (0xD800 \<le> c \<and> c < 0xE000)"
      and bs: "bs = [0xE0 + c div 0x1000, 0x80 + c div 0x40 mod 0x40, 0x80 + c mod 0x40]"
      by (simp_all add: utf8_encode_cp_def split: if_splits)
    have q: "c div 0x1000 < 0x10" using three by simp
    have r: "c div 0x40 mod 0x40 < 0x40" "c mod 0x40 < 0x40" by simp_all
    note c = split3 [of c]
    have lo: "0x800 \<le> c div 0x1000 * 0x1000 + c div 0x40 mod 0x40 * 0x40 + c mod 0x40"
      unfolding c by (rule three(1))
    have ns': "\<not> (0xD800 \<le> c div 0x1000 * 0x1000 + c div 0x40 mod 0x40 * 0x40 + c mod 0x40 \<and>
                c div 0x1000 * 0x1000 + c div 0x40 mod 0x40 * 0x40 + c mod 0x40 < 0xE000)"
      unfolding c by (rule ns)
    have "utf8_decode (bs @ rest) =
          map_option ((#) (c div 0x1000 * 0x1000 + c div 0x40 mod 0x40 * 0x40 + c mod 0x40))
            (utf8_decode rest)"
      unfolding bs append.simps by (rule utf8_decode_3 [OF q r lo ns'])
    moreover have "list_all (\<lambda>b. b < 256) bs"
      unfolding bs by (rule bytes_3 [OF q r])
    ultimately show ?thesis by (simp only: c)
  next
    case four
    with assms(1) have bs: "bs = [0xF0 + c div 0x40000, 0x80 + c div 0x1000 mod 0x40,
                         0x80 + c div 0x40 mod 0x40, 0x80 + c mod 0x40]"
      by (simp add: utf8_encode_cp_def split: if_splits)
    have q: "c div 0x40000 < 5" using assms(2) by simp
    have r: "c div 0x1000 mod 0x40 < 0x40" "c div 0x40 mod 0x40 < 0x40" "c mod 0x40 < 0x40"
      by simp_all
    note c = split4 [of c]
    have lo: "0x10000 \<le> c div 0x40000 * 0x40000 + c div 0x1000 mod 0x40 * 0x1000
                 + c div 0x40 mod 0x40 * 0x40 + c mod 0x40"
      unfolding c by (rule four)
    have hi: "c div 0x40000 * 0x40000 + c div 0x1000 mod 0x40 * 0x1000
                 + c div 0x40 mod 0x40 * 0x40 + c mod 0x40 < 0x110000"
      unfolding c by (rule assms(2))
    have "utf8_decode (bs @ rest) =
          map_option ((#) (c div 0x40000 * 0x40000 + c div 0x1000 mod 0x40 * 0x1000
                 + c div 0x40 mod 0x40 * 0x40 + c mod 0x40)) (utf8_decode rest)"
      unfolding bs append.simps by (rule utf8_decode_4 [OF q r lo hi])
    moreover have "list_all (\<lambda>b. b < 256) bs"
      unfolding bs by (rule bytes_4 [OF q r])
    ultimately show ?thesis by (simp only: c)
  qed
qed

lemma utf8_decode_encode:
  "encode_utf8 s = Inr bs \<Longrightarrow> is_pystr s \<Longrightarrow>
   utf8_decode bs = Some s \<and> list_all (\<lambda>b. b < 256) bs"
proof (induction s arbitrary: bs)
  case Nil
  then show ?case by simp
next
  case (Cons c cs)
  from Cons.prems(1) obtain hd_bytes tl_bytes where
    e: "utf8_encode_cp c = Inr hd_bytes" "encode_utf8 cs = Inr tl_bytes" "bs = hd_bytes @ tl_bytes"
    by (auto split: sum.splits)
  from Cons.prems(2) have c: "c < 0x110000" and cs: "is_pystr cs"
    by (simp_all add: is_pystr_def)
  from Cons.IH [OF e(2) cs] have ih: "utf8_decode tl_bytes = Some cs" "list_all (\<lambda>b. b < 256) tl_bytes"
    by simp_all
  from utf8_decode_encode_cp [OF e(1) c, of tl_bytes]
  have "utf8_decode (hd_bytes @ tl_bytes) = Some (c # cs)" "list_all (\<lambda>b. b < 256) hd_bytes"
    by (simp_all add: ih(1))
  then show ?case
    using ih(2) by (simp add: e(3))
qed

lemma quoter_ascii: "b < 256 \<Longrightarrow> list_all (\<lambda>c. c < 128) (quoter [] b)"
  by (auto simp: quoter_def hex_upper_def S_def dest: always_safe_range)

lemma quote_from_bytes_ascii:
  "list_all (\<lambda>b. b < 256) bs \<Longrightarrow> list_all (\<lambda>c. c < 128) (quote_from_bytes bs [])"
  by (induction bs) (simp_all add: quote_from_bytes_def quoter_ascii)

lemma unquote_quote:
  assumes "quote s [] = Inr e" and "is_pystr s"
  shows "unquote e = Some s"
proof -
  from assms(1) obtain bs where bs: "encode_utf8 s = Inr bs" "e = quote_from_bytes bs []"
    by (auto simp: quote_def split: sum.splits)
  from utf8_decode_encode [OF bs(1) assms(2)]
  have d: "utf8_decode bs = Some s" and r: "list_all (\<lambda>b. b < 256) bs" by simp_all
  show ?thesis
    unfolding unquote_def bs(2)
    using quote_from_bytes_ascii [OF r] unquote_to_bytes_quote_from_bytes [OF r] d by simp
qed

section \<open>What \<open>quote\<close> returns\<close>

lemma utf8_encode_cp_returns:
  "(\<exists>bs. utf8_encode_cp c = Inr bs) \<longleftrightarrow> \<not> lone_surrogate c"
  by (auto simp: utf8_encode_cp_def lone_surrogate_def)

lemma utf8_encode_cp_error: "utf8_encode_cp c = Inl e \<Longrightarrow> lone_surrogate c"
  by (auto simp: utf8_encode_cp_def lone_surrogate_def split: if_splits)

lemma encode_utf8_returns:
  "(\<exists>bs. encode_utf8 s = Inr bs) \<longleftrightarrow> \<not> list_ex lone_surrogate s"
proof (induction s)
  case Nil
  then show ?case by simp
next
  case (Cons c cs)
  show ?case
  proof (cases "utf8_encode_cp c")
    case (Inl e)
    then show ?thesis by (auto dest: utf8_encode_cp_error)
  next
    case (Inr bs)
    then have "\<not> lone_surrogate c" using utf8_encode_cp_returns by blast
    with Inr Cons.IH show ?thesis by (auto split: sum.splits)
  qed
qed

lemma quote_returns:
  "(\<exists>e. quote s safe = Inr e) \<longleftrightarrow> \<not> list_ex lone_surrogate s"
  using encode_utf8_returns [of s] by (auto simp: quote_def split: sum.splits)

lemma encode_utf8_error: "encode_utf8 s = Inl e \<Longrightarrow> e = UnicodeEncodeError"
proof (induction s)
  case Nil
  then show ?case by simp
next
  case (Cons c cs)
  then show ?case
    by (auto simp: utf8_encode_cp_def split: sum.splits if_splits)
qed

lemma quote_error: "quote s safe = Inl e \<Longrightarrow> e = UnicodeEncodeError"
  by (auto simp: quote_def split: sum.splits dest: encode_utf8_error)

lemma hex_upper_safe_all:
  "list_all (\<lambda>d. hex_upper d \<in> set always_safe) [0, 1, 2, 3, 4, 5, 6, 7, 8, 9, 10, 11, 12, 13, 14, 15]"
  by (simp add: hex_upper_def always_safe_def S_def)

lemma hex_upper_safe: "d < 16 \<Longrightarrow> hex_upper d \<in> set always_safe"
proof -
  assume "d < 16"
  then have "d \<in> set [0, 1, 2, 3, 4, 5, 6, 7, 8, 9, 10, 11, 12, 13, 14, 15::nat]"
    by (simp; arith)
  with hex_upper_safe_all show ?thesis unfolding list_all_iff by blast
qed

lemma quoter_chars:
  assumes "b < 256"
  shows "list_all (\<lambda>c. c \<in> set always_safe \<or> c \<in> set (S ''%'')) (quoter [] b)"
proof -
  have "b div 16 < 16" "b mod 16 < 16" using assms by simp_all
  then have "hex_upper (b div 16) \<in> set always_safe" "hex_upper (b mod 16) \<in> set always_safe"
    by (simp_all add: hex_upper_safe)
  then show ?thesis by (simp add: quoter_def list_all_iff)
qed

lemma quote_from_bytes_chars:
  "list_all (\<lambda>b. b < 256) bs \<Longrightarrow>
   list_all (\<lambda>c. c \<in> set always_safe \<or> c \<in> set (S ''%'')) (quote_from_bytes bs [])"
  by (induction bs) (simp_all add: quote_from_bytes_def quoter_chars)

lemma reserved_not_safe:
  "list_all (\<lambda>c. \<not> ((65 \<le> c \<and> c \<le> 90) \<or> (97 \<le> c \<and> c \<le> 122) \<or> (48 \<le> c \<and> c \<le> 57) \<or>
     c = 95 \<or> c = 46 \<or> c = 45 \<or> c = 126) \<and> c \<noteq> 37) (reserved @ S '' '')"
  by (simp add: reserved_def S_def)

lemma safe_not_reserved:
  assumes "c \<in> set always_safe \<or> c \<in> set (S ''%'')"
  shows "c \<notin> set (reserved @ S '' '')"
proof
  assume "c \<in> set (reserved @ S '' '')"
  with reserved_not_safe have "\<not> ((65 \<le> c \<and> c \<le> 90) \<or> (97 \<le> c \<and> c \<le> 122) \<or> (48 \<le> c \<and> c \<le> 57) \<or>
     c = 95 \<or> c = 46 \<or> c = 45 \<or> c = 126) \<and> c \<noteq> 37"
    unfolding list_all_iff by blast
  with assms always_safe_range [of c] show False by (auto simp: S_def)
qed

section \<open>The templates\<close>

lemma og_tags_nonempty: "og_tags u t d n \<noteq> []"
  unfolding og_tags_def by (simp add: S_def)

lemma share_button_html_nonempty: "share_button_html u \<noteq> []"
  unfolding share_button_html_def by (simp add: S_def)

lemma og_tags_url_line:
  \<open>\<exists>a b. og_tags u t d n = a @ S ''<meta property="og:url" content="'' @ u @ S ''" />'' @ b\<close>
proof -
  have \<open>og_tags u t d n =
      (S ''\<newline>'' @ S ''    <!-- Open Graph / LinkedIn meta tags -->\<newline>'' @
       S ''    <meta property="og:type" content="article" />\<newline>'' @ S ''    '') @
      S ''<meta property="og:url" content="'' @ u @ S ''" />'' @
      (S ''\<newline>'' @ S ''    <meta property="og:title" content="'' @ fmt t @ S ''" />\<newline>'' @
     S ''    <meta property="og:description" content="'' @ fmt d @ S ''" />\<newline>'' @
     S ''    <meta property="og:site_name" content="'' @ fmt n @ S ''" />\<newline>'' @
     S ''    \<newline>'' @
     S ''    <!-- Twitter Card meta tags (also used by LinkedIn) -->\<newline>'' @
     S ''    <meta name="twitter:card" content="summary_large_image" />\<newline>'' @
     S ''    <meta name="twitter:title" content="'' @ fmt t @ S ''" />\<newline>'' @
     S ''    <meta name="twitter:description" content="'' @ fmt d @ S ''" />\<newline>'')\<close>
    unfolding og_tags_def by (simp add: S_def)
  then show ?thesis by blast
qed

lemma og_tags_title_lines:
  \<open>\<exists>a b c. og_tags u t d n =
     a @ S ''<meta property="og:title" content="'' @ fmt t @ S ''" />'' @
     b @ S ''<meta name="twitter:title" content="'' @ fmt t @ S ''" />'' @ c\<close>
proof -
  have \<open>og_tags u t d n =
      (S ''\<newline>'' @ S ''    <!-- Open Graph / LinkedIn meta tags -->\<newline>'' @
       S ''    <meta property="og:type" content="article" />\<newline>'' @
       S ''    <meta property="og:url" content="'' @ u @ S ''" />\<newline>'' @ S ''    '') @
      S ''<meta property="og:title" content="'' @ fmt t @ S ''" />'' @
      (S ''\<newline>'' @
     S ''    <meta property="og:description" content="'' @ fmt d @ S ''" />\<newline>'' @
     S ''    <meta property="og:site_name" content="'' @ fmt n @ S ''" />\<newline>'' @
     S ''    \<newline>'' @
     S ''    <!-- Twitter Card meta tags (also used by LinkedIn) -->\<newline>'' @
     S ''    <meta name="twitter:card" content="summary_large_image" />\<newline>'' @ S ''    '') @
     S ''<meta name="twitter:title" content="'' @ fmt t @ S ''" />'' @
     (S ''\<newline>'' @ S ''    <meta name="twitter:description" content="'' @ fmt d @ S ''" />\<newline>'')\<close>
    unfolding og_tags_def by (simp add: S_def)
  then show ?thesis by blast
qed

lemma og_tags_spec:
  "og_tags u t d n = spec_og_block u (fmt t) (fmt d) (fmt n)"
  unfolding og_tags_def spec_og_block_def spec_meta_tag_def by (simp add: S_def)

lemma share_button_html_href:
  \<open>\<exists>a b. share_button_html (linkedin_share_url enc) =
     a @ S ''<a href="https://www.linkedin.com/sharing/share-offsite/?url='' @ enc @ S ''"'' @ b\<close>
  unfolding share_button_html_def linkedin_share_url_def
  apply (rule exI [of _ \<open>S ''\<newline>'' @
     S ''<div class="social-share-container" style="margin-top: 2rem; padding: 1.5rem; border-top: 2px solid var(--md-default-fg-color--lightest); text-align: center;">\<newline>'' @
     S ''    <p style="margin-bottom: 1rem; color: var(--md-default-fg-color--light); font-size: 0.9rem;">\<newline>'' @
     S ''        <strong>Found this helpful? Share it on LinkedIn!</strong>\<newline>'' @
     S ''    </p>\<newline>'' @
     S ''    ''\<close>])
  apply (simp add: S_def)
  done

lemma share_button_html_shape:
  \<open>\<exists>a b c. share_button_html u =
     S ''\<newline><div class="social-share-container"'' @ a @
     S ''<a href="'' @ u @ S ''"'' @ b @ S ''Share on LinkedIn'' @ c\<close>
  unfolding share_button_html_def
  apply (rule exI [of _ \<open>
     S '' style="margin-top: 2rem; padding: 1.5rem; border-top: 2px solid var(--md-default-fg-color--lightest); text-align: center;">\<newline>'' @
     S ''    <p style="margin-bottom: 1rem; color: var(--md-default-fg-color--light); font-size: 0.9rem;">\<newline>'' @
     S ''        <strong>Found this helpful? Share it on LinkedIn!</strong>\<newline>'' @
     S ''    </p>\<newline>'' @
     S ''    ''\<close>])
  apply (rule exI [of _ \<open>
     S '' \<newline>'' @
     S ''       target="_blank" \<newline>'' @
     S ''       rel="noopener noreferrer"\<newline>'' @
     S ''       class="linkedin-share-button"\<newline>'' @
     S ''       style="display: inline-flex; align-items: center; gap: 0.5rem; padding: 0.75rem 1.5rem; \<newline>'' @
     S ''              background-color: #0A66C2; color: white; text-decoration: none; \<newline>'' @
     S ''              border-radius: 4px; font-weight: 500; transition: background-color 0.3s ease;\<newline>'' @
     S ''              box-shadow: 0 2px 4px rgba(0,0,0,0.1);"\<newline>'' @
     S ''       onmouseover="this.style.backgroundColor='#004182'"\<newline>'' @
     S ''       onmouseout="this.style.backgroundColor='#0A66C2'">\<newline>'' @
     S ''        <svg xmlns="http://www.w3.org/2000/svg" width="20" height="20" viewBox="0 0 24 24" fill="currentColor">\<newline>'' @
     S ''            <path d="M19 0h-14c-2.761 0-5 2.239-5 5v14c0 2.761 2.239 5 5 5h14c2.762 0 5-2.239 5-5v-14c0-2.761-2.238-5-5-5zm-11 19h-3v-11h3v11zm-1.5-12.268c-.966 0-1.75-.79-1.75-1.764s.784-1.764 1.75-1.764 1.75.79 1.75 1.764-.783 1.764-1.75 1.764zm13.5 12.268h-3v-5.604c0-3.368-4-3.113-4 0v5.604h-3v-11h3v1.765c1.396-2.586 7-2.777 7 2.476v6.759z"/>\<newline>'' @
     S ''        </svg>\<newline>'' @
     S ''        ''\<close>])
  apply (simp add: S_def)
  done

section \<open>The example inputs, evaluated\<close>

lemma hello_is_post: "startswith (src_uri (page_file hello_post)) (S ''posts/'')"
  by (simp add: hello_post_def startswith_def S_def)

lemma untitled_is_post: "startswith (src_uri (page_file untitled_post)) (S ''posts/'')"
  by (simp add: untitled_post_def startswith_def S_def)

lemma hello_page_url:
  "on_page_content_page_url hello_post blog_config = Inr (S ''https://blog.example/posts/hello/'')"
  by (simp add: on_page_content_page_url_def hello_post_def blog_config_def get_def
      rstrip_def lstrip_def S_def)

lemma hello_post_page_url:
  "on_post_page_page_url hello_post blog_config = Inr (S ''https://blog.example//posts/hello/'')"
  by (simp add: on_post_page_page_url_def hello_post_def blog_config_def get_def
      rstrip_def S_def)

lemma bare_post_slash_url:
  "on_page_content_page_url bare_post slash_config = Inr (S ''posts/hello/'')"
  by (simp add: on_page_content_page_url_def bare_post_def slash_config_def get_def
      rstrip_def lstrip_def S_def)

lemma hello_slash_urls:
  "on_post_page_page_url hello_post slash_config = Inr (S ''/posts/hello/'')"
  "on_page_content_page_url hello_post slash_config = Inr (S ''/posts/hello/'')"
  by (simp_all add: on_post_page_page_url_def on_page_content_page_url_def hello_post_def
      slash_config_def get_def rstrip_def lstrip_def S_def)

lemma quote_hello:
  "quote (S ''https://blog.example/posts/hello/'') (S '''') =
   Inr (S ''https%3A%2F%2Fblog.example%2Fposts%2Fhello%2F'')"
  by (simp add: quote_def quote_from_bytes_def quoter_def always_safe_def hex_upper_def
      utf8_encode_cp_def S_def)

lemma quote_example:
  "quote (S ''https://x.com/posts/a b?c=d'') (S '''') =
   Inr (S ''https%3A%2F%2Fx.com%2Fposts%2Fa%20b%3Fc%3Dd'')"
  by (simp add: quote_def quote_from_bytes_def quoter_def always_safe_def hex_upper_def
      utf8_encode_cp_def S_def)

lemma markup_post_page:
  \<open>on_post_page (S ''<head></head>'') markup_post blog_config =
     Inr (S ''<head>'' @
          og_tags (S ''https://blog.example/posts/markup/'') (PyStr (S ''<b>"A&B"</b>''))
            (PyStr (S '''')) (PyStr (S '''')) @
          S ''</head>'',
          [S ''Added Open Graph meta tags to: posts/markup.md''])\<close>
  by (simp add: on_post_page_def on_post_page_page_url_def on_post_page_page_title_def
      on_post_page_page_description_def py_or_def get_def markup_post_def blog_config_def
      rstrip_def startswith_def S_def)

lemma untitled_empty_name_page:
  "on_post_page (S ''<head></head>'') untitled_post empty_name_config =
     Inr (S ''<head>'' @
          og_tags (S ''/posts/hello/'') (PyStr (S '''')) (PyStr (S ''A first post''))
            (PyStr (S '''')) @
          S ''</head>'',
          [S ''Added Open Graph meta tags to: posts/hello.md''])"
  by (simp add: on_post_page_def on_post_page_page_url_def on_post_page_page_title_def
      on_post_page_page_description_def py_or_def get_def untitled_post_def
      empty_name_config_def rstrip_def startswith_def S_def)

section \<open>Pages that are not posts\<close>

text \<open>
  C1. For every page whose path does not start with \<^verbatim>\<open>posts/\<close>, both hooks are the
  identity on their HTML argument, whatever the HTML and the configuration: each
  returns its input unchanged (and writes nothing to the log).
\<close>

theorem non_post_identity:
  "\<not> startswith (src_uri (page_file page)) (S ''posts/'') \<Longrightarrow>
     on_page_content html page config files = Inr (html, []) \<and>
     on_post_page output page config = Inr (output, [])"
  by (simp add: on_page_content_def on_post_page_def)

theorem non_post_identity_witness:
  "\<not> startswith (src_uri (page_file index_page)) (S ''posts/'') \<and>
   on_page_content (S ''<p>Home</p>'') index_page unset_config () =
     Inr (S ''<p>Home</p>'', []) \<and>
   on_post_page (S ''<head></head>'') index_page unset_config =
     Inr (S ''<head></head>'', [])"
proof -
  have h: "\<not> startswith (src_uri (page_file index_page)) (S ''posts/'')"
    by (simp add: index_page_def startswith_def S_def)
  show ?thesis
    using h non_post_identity [OF h, of "S ''<p>Home</p>''" unset_config "()"
        "S ''<head></head>''"]
    by simp
qed

section \<open>The share button is appended\<close>

text \<open>
  C2. For every page whose path starts with \<^verbatim>\<open>posts/\<close>, what \<^verbatim>\<open>on_page_content\<close>
  returns is its \<^verbatim>\<open>html\<close> argument followed by the share-button fragment: the
  container element, the anchor whose href is the LinkedIn share URL with the
  percent-encoded page URL, and the label \<^verbatim>\<open>Share on LinkedIn\<close>. The input is a prefix of
  the output, nothing of it is removed or changed, and the output is longer than the
  input (so at least as long).
\<close>

theorem on_page_content_appends:
  assumes "startswith (src_uri (page_file page)) (S ''posts/'')"
    and "on_page_content html page config files = Inr (out, lg)"
  shows \<open>\<exists>page_url encoded_url a b c.
           on_page_content_page_url page config = Inr page_url \<and>
           quote page_url (S '''') = Inr encoded_url \<and>
           out = html @ share_button_html (linkedin_share_url encoded_url) \<and>
           share_button_html (linkedin_share_url encoded_url) =
             S ''\<newline><div class="social-share-container"'' @ a @
             S ''<a href="'' @
             (S ''https://www.linkedin.com/sharing/share-offsite/?url='' @ encoded_url) @
             S ''"'' @ b @ S ''Share on LinkedIn'' @ c \<and>
           prefix html out \<and> length html \<le> length out \<and> length html < length out\<close>
proof -
  from assms obtain page_url encoded_url where
    u: "on_page_content_page_url page config = Inr page_url"
      "quote page_url (S '''') = Inr encoded_url"
      "out = html @ share_button_html (linkedin_share_url encoded_url)"
    by (auto simp: on_page_content_def Let_def split: sum.splits)
  from share_button_html_shape [of "linkedin_share_url encoded_url"] obtain a b c where
    f: \<open>share_button_html (linkedin_share_url encoded_url) =
             S ''\<newline><div class="social-share-container"'' @ a @
             S ''<a href="'' @
             (S ''https://www.linkedin.com/sharing/share-offsite/?url='' @ encoded_url) @
             S ''"'' @ b @ S ''Share on LinkedIn'' @ c\<close>
    unfolding linkedin_share_url_def by blast
  from f have "share_button_html (linkedin_share_url encoded_url) \<noteq> []"
    by (simp add: S_def)
  then have l: "prefix html out" "length html \<le> length out" "length html < length out"
    unfolding u(3) by simp_all
  show ?thesis
    apply (rule exI [of _ page_url], rule exI [of _ encoded_url])
    apply (rule exI [of _ a], rule exI [of _ b], rule exI [of _ c])
    apply (intro conjI)
          apply (rule u(1))
         apply (rule u(2))
        apply (rule u(3))
       apply (rule f)
      apply (rule l(1))
     apply (rule l(2))
    apply (rule l(3))
    done
qed

theorem on_page_content_appends_witness:
  \<open>startswith (src_uri (page_file hello_post)) (S ''posts/'') \<and>
   on_page_content (S ''<p>Hi</p>'') hello_post blog_config () =
     Inr (S ''<p>Hi</p>'' @
          share_button_html
            (linkedin_share_url (S ''https%3A%2F%2Fblog.example%2Fposts%2Fhello%2F'')),
          [S ''Added LinkedIn share button to: posts/hello.md'']) \<and>
   (\<exists>a b c.
      share_button_html
        (linkedin_share_url (S ''https%3A%2F%2Fblog.example%2Fposts%2Fhello%2F'')) =
      S ''\<newline><div class="social-share-container"'' @ a @
      S ''<a href="'' @
      (S ''https://www.linkedin.com/sharing/share-offsite/?url='' @
       S ''https%3A%2F%2Fblog.example%2Fposts%2Fhello%2F'') @
      S ''"'' @ b @ S ''Share on LinkedIn'' @ c) \<and>
   prefix (S ''<p>Hi</p>'')
     (S ''<p>Hi</p>'' @
      share_button_html
        (linkedin_share_url (S ''https%3A%2F%2Fblog.example%2Fposts%2Fhello%2F''))) \<and>
   length (S ''<p>Hi</p>'') <
     length (S ''<p>Hi</p>'' @
       share_button_html
         (linkedin_share_url (S ''https%3A%2F%2Fblog.example%2Fposts%2Fhello%2F'')))\<close>
proof -
  note p = hello_is_post
  have src: "src_uri (page_file hello_post) = S ''posts/hello.md''"
    by (simp add: hello_post_def)
  have lg: "S ''Added LinkedIn share button to: '' @ S ''posts/hello.md'' =
            S ''Added LinkedIn share button to: posts/hello.md''"
    by (simp add: S_def)
  have r: "on_page_content (S ''<p>Hi</p>'') hello_post blog_config () =
     Inr (S ''<p>Hi</p>'' @
          share_button_html
            (linkedin_share_url (S ''https%3A%2F%2Fblog.example%2Fposts%2Fhello%2F'')),
          [S ''Added LinkedIn share button to: posts/hello.md''])"
    unfolding on_page_content_def Let_def
    using p by (simp only: hello_page_url quote_hello src lg if_True sum.case)
  from on_page_content_appends [OF p r] obtain page_url encoded_url a b c where
    t: "on_page_content_page_url hello_post blog_config = Inr page_url"
      "quote page_url (S '''') = Inr encoded_url"
      \<open>share_button_html (linkedin_share_url encoded_url) =
             S ''\<newline><div class="social-share-container"'' @ a @
             S ''<a href="'' @
             (S ''https://www.linkedin.com/sharing/share-offsite/?url='' @ encoded_url) @
             S ''"'' @ b @ S ''Share on LinkedIn'' @ c\<close>
      "prefix (S ''<p>Hi</p>'')
     (S ''<p>Hi</p>'' @
      share_button_html
        (linkedin_share_url (S ''https%3A%2F%2Fblog.example%2Fposts%2Fhello%2F'')))"
      "length (S ''<p>Hi</p>'') <
     length (S ''<p>Hi</p>'' @
       share_button_html
         (linkedin_share_url (S ''https%3A%2F%2Fblog.example%2Fposts%2Fhello%2F'')))"
    by blast
  from t(1) have "page_url = S ''https://blog.example/posts/hello/''"
    by (simp add: hello_page_url)
  with t(2) have e: "encoded_url = S ''https%3A%2F%2Fblog.example%2Fposts%2Fhello%2F''"
    by (simp add: quote_hello)
  from t(3) have \<open>\<exists>a b c.
      share_button_html
        (linkedin_share_url (S ''https%3A%2F%2Fblog.example%2Fposts%2Fhello%2F'')) =
      S ''\<newline><div class="social-share-container"'' @ a @
      S ''<a href="'' @
      (S ''https://www.linkedin.com/sharing/share-offsite/?url='' @
       S ''https%3A%2F%2Fblog.example%2Fposts%2Fhello%2F'') @
      S ''"'' @ b @ S ''Share on LinkedIn'' @ c\<close>
    unfolding e by (intro exI)
  with p r t(4,5) show ?thesis by (intro conjI)
qed

section \<open>The meta tags are inserted after the first head tag\<close>

text \<open>
  C3. For every page whose path starts with \<^verbatim>\<open>posts/\<close>: when \<^verbatim>\<open><head>\<close> does not occur
  in the output, \<^verbatim>\<open>on_post_page\<close> returns the output unchanged and logs nothing; when it
  occurs, the tag block is inserted immediately after the leftmost occurrence and
  nowhere else, so that the result is the input with exactly one block inserted and is
  strictly longer than the input.
\<close>

theorem on_post_page_head:
  assumes "startswith (src_uri (page_file page)) (S ''posts/'')"
    and "on_post_page output page config = Inr (out, lg)"
  shows "(\<not> contains (S ''<head>'') output \<longrightarrow> out = output \<and> lg = []) \<and>
         (contains (S ''<head>'') output \<longrightarrow>
            (\<exists>pre rest page_url tags.
               output = pre @ S ''<head>'' @ rest \<and>
               (\<forall>i < length pre. \<not> startswith (drop i output) (S ''<head>'')) \<and>
               on_post_page_page_url page config = Inr page_url \<and>
               tags = og_tags page_url (on_post_page_page_title page config)
                        (on_post_page_page_description page config)
                        (get config (S ''site_name'') (PyStr (S ''''))) \<and>
               out = pre @ S ''<head>'' @ tags @ rest \<and>
               length out = length output + length tags \<and>
               length output < length out))"
proof (rule conjI; rule impI)
  assume "\<not> contains (S ''<head>'') output"
  with assms show "out = output \<and> lg = []"
    by (auto simp: on_post_page_def Let_def split: sum.splits)
next
  assume c: "contains (S ''<head>'') output"
  from assms c obtain page_url where u: "on_post_page_page_url page config = Inr page_url"
    and o: "out = replace1 output (S ''<head>'')
              (S ''<head>'' @ og_tags page_url (on_post_page_page_title page config)
                        (on_post_page_page_description page config)
                        (get config (S ''site_name'') (PyStr (S ''''))))"
    by (auto simp: on_post_page_def Let_def split: sum.splits)
  define tags where "tags = og_tags page_url (on_post_page_page_title page config)
                        (on_post_page_page_description page config)
                        (get config (S ''site_name'') (PyStr (S '''')))"
  from replace1_first [OF c, of "S ''<head>'' @ tags"] obtain pre rest where
    r: "output = pre @ S ''<head>'' @ rest"
       "\<forall>i < length pre. \<not> startswith (drop i output) (S ''<head>'')"
       "replace1 output (S ''<head>'') (S ''<head>'' @ tags) = pre @ (S ''<head>'' @ tags) @ rest"
    by blast
  have out: "out = pre @ S ''<head>'' @ tags @ rest"
    using o r(3) by (simp add: tags_def)
  have "tags \<noteq> []" unfolding tags_def by (rule og_tags_nonempty)
  then have len: "length out = length output + length tags" "length output < length out"
    unfolding out by (subst r(1), simp)+
  show "\<exists>pre rest page_url tags.
               output = pre @ S ''<head>'' @ rest \<and>
               (\<forall>i < length pre. \<not> startswith (drop i output) (S ''<head>'')) \<and>
               on_post_page_page_url page config = Inr page_url \<and>
               tags = og_tags page_url (on_post_page_page_title page config)
                        (on_post_page_page_description page config)
                        (get config (S ''site_name'') (PyStr (S ''''))) \<and>
               out = pre @ S ''<head>'' @ tags @ rest \<and>
               length out = length output + length tags \<and>
               length output < length out"
    using r(1,2) u out len tags_def by blast
qed

theorem on_post_page_head_witness:
  "startswith (src_uri (page_file hello_post)) (S ''posts/'') \<and>
   contains (S ''<head>'') (S ''<html><head><title>t</title></head><head></head></html>'') \<and>
   on_post_page (S ''<html><head><title>t</title></head><head></head></html>'')
       hello_post blog_config =
     Inr (S ''<html><head>'' @
          og_tags (S ''https://blog.example//posts/hello/'')
            (on_post_page_page_title hello_post blog_config)
            (on_post_page_page_description hello_post blog_config)
            (get blog_config (S ''site_name'') (PyStr (S ''''))) @
          S ''<title>t</title></head><head></head></html>'',
          [S ''Added Open Graph meta tags to: posts/hello.md'']) \<and>
   length (S ''<html><head><title>t</title></head><head></head></html>'') <
   length (S ''<html><head>'' @
          og_tags (S ''https://blog.example//posts/hello/'')
            (on_post_page_page_title hello_post blog_config)
            (on_post_page_page_description hello_post blog_config)
            (get blog_config (S ''site_name'') (PyStr (S ''''))) @
          S ''<title>t</title></head><head></head></html>'') \<and>
   \<not> contains (S ''<head>'') (S ''<p>no head section</p>'') \<and>
   on_post_page (S ''<p>no head section</p>'') hello_post blog_config =
     Inr (S ''<p>no head section</p>'', [])"
proof -
  note p = hello_is_post
  have c1: "contains (S ''<head>'') (S ''<html><head><title>t</title></head><head></head></html>'')"
    by (simp add: startswith_def S_def)
  have c2: "\<not> contains (S ''<head>'') (S ''<p>no head section</p>'')"
    by (simp add: startswith_def S_def)
  have r1: "on_post_page (S ''<html><head><title>t</title></head><head></head></html>'')
       hello_post blog_config =
     Inr (S ''<html><head>'' @
          og_tags (S ''https://blog.example//posts/hello/'')
            (on_post_page_page_title hello_post blog_config)
            (on_post_page_page_description hello_post blog_config)
            (get blog_config (S ''site_name'') (PyStr (S ''''))) @
          S ''<title>t</title></head><head></head></html>'',
          [S ''Added Open Graph meta tags to: posts/hello.md''])"
    using p c1 unfolding on_post_page_def Let_def hello_post_page_url
    by (simp add: hello_post_def startswith_def S_def)
  have r2: "on_post_page (S ''<p>no head section</p>'') hello_post blog_config =
     Inr (S ''<p>no head section</p>'', [])"
    using p c2 unfolding on_post_page_def Let_def hello_post_page_url
    by simp
  from on_post_page_head [OF p r1] c1
  have "length (S ''<html><head><title>t</title></head><head></head></html>'') <
   length (S ''<html><head>'' @
          og_tags (S ''https://blog.example//posts/hello/'')
            (on_post_page_page_title hello_post blog_config)
            (on_post_page_page_description hello_post blog_config)
            (get blog_config (S ''site_name'') (PyStr (S ''''))) @
          S ''<title>t</title></head><head></head></html>'')"
    by blast
  with p c1 c2 r1 r2 show ?thesis by blast
qed

section \<open>The absolute URL of the share link\<close>

text \<open>
  The claim C4 reads: if \<^verbatim>\<open>site_url\<close> is non-empty, the absolute URL is the site URL
  with its trailing slashes stripped, a slash, and \<^verbatim>\<open>page.url\<close> with its leading
  slashes stripped. The function tests the site URL after stripping it, so a site URL
  made of slashes only counts as empty: for \<^verbatim>\<open>site_url = "/"\<close> and
  \<^verbatim>\<open>page.url = "posts/hello/"\<close> the rule of the claim gives \<^verbatim>\<open>/posts/hello/\<close> and the
  function gives \<^verbatim>\<open>posts/hello/\<close>.
\<close>

theorem content_page_url_slash_site_counterexample:
  "get slash_config (S ''site_url'') (PyStr (S '''')) = PyStr (S ''/'') \<and>
   S ''/'' \<noteq> [] \<and>
   rstrip (S ''/'') (S ''/'') @ S ''/'' @ lstrip (url bare_post) (S ''/'') = S ''/posts/hello/'' \<and>
   on_page_content_page_url bare_post slash_config = Inr (S ''posts/hello/'') \<and>
   on_page_content_page_url bare_post slash_config \<noteq>
     Inr (rstrip (S ''/'') (S ''/'') @ S ''/'' @ lstrip (url bare_post) (S ''/''))"
  by (simp add: bare_post_slash_url)
     (simp add: bare_post_def slash_config_def get_def rstrip_def lstrip_def S_def)

text \<open>
  C4, as amended. In \<^verbatim>\<open>on_page_content\<close>: if \<^verbatim>\<open>site_url\<close> is a string with a character
  other than \<^verbatim>\<open>/\<close>, the absolute URL is the site URL with its trailing slashes
  stripped, one slash, and \<^verbatim>\<open>page.url\<close> with its leading slashes stripped; if
  \<^verbatim>\<open>site_url\<close> is absent from the configuration, empty, or made of slashes only, the
  absolute URL is \<^verbatim>\<open>page.url\<close> unchanged. For \<^verbatim>\<open>site_url = "https://blog.example"\<close> and
  \<^verbatim>\<open>page.url = "/posts/hello/"\<close> the absolute URL is
  \<^verbatim>\<open>https://blog.example/posts/hello/\<close>, and the query value of the share link is its
  percent-encoded form \<^verbatim>\<open>https%3A%2F%2Fblog.example%2Fposts%2Fhello%2F\<close>.
\<close>

theorem content_page_url_rule:
  "(map_of config (S ''site_url'') = Some (PyStr site) \<and> \<not> set site \<subseteq> set (S ''/'') \<longrightarrow>
      on_page_content_page_url page config =
        Inr (rstrip site (S ''/'') @ S ''/'' @ lstrip (url page) (S ''/''))) \<and>
   (map_of config (S ''site_url'') = None \<or>
    map_of config (S ''site_url'') = Some (PyStr site) \<and> set site \<subseteq> set (S ''/'') \<longrightarrow>
      on_page_content_page_url page config = Inr (url page)) \<and>
   on_page_content_page_url hello_post blog_config =
     Inr (S ''https://blog.example/posts/hello/'') \<and>
   on_page_content html hello_post blog_config files =
     Inr (html @ share_button_html
            (S ''https://www.linkedin.com/sharing/share-offsite/?url='' @
             S ''https%3A%2F%2Fblog.example%2Fposts%2Fhello%2F''),
          [S ''Added LinkedIn share button to: posts/hello.md''])"
proof (intro conjI)
  show "map_of config (S ''site_url'') = Some (PyStr site) \<and> \<not> set site \<subseteq> set (S ''/'') \<longrightarrow>
      on_page_content_page_url page config =
        Inr (rstrip site (S ''/'') @ S ''/'' @ lstrip (url page) (S ''/''))"
    by (simp add: on_page_content_page_url_def get_site_url_cases rstrip_empty_iff)
  show "map_of config (S ''site_url'') = None \<or>
    map_of config (S ''site_url'') = Some (PyStr site) \<and> set site \<subseteq> set (S ''/'') \<longrightarrow>
      on_page_content_page_url page config = Inr (url page)"
  proof
    assume "map_of config (S ''site_url'') = None \<or>
      map_of config (S ''site_url'') = Some (PyStr site) \<and> set site \<subseteq> set (S ''/'')"
    then consider "get config (S ''site_url'') (PyStr (S '''')) = PyStr (S '''')"
      | "get config (S ''site_url'') (PyStr (S '''')) = PyStr site" "rstrip site (S ''/'') = []"
      by (auto simp: get_site_url_cases rstrip_empty_iff)
    then show "on_page_content_page_url page config = Inr (url page)"
    proof cases
      case 1
      then show ?thesis by (simp add: on_page_content_page_url_def rstrip_def S_def)
    next
      case 2
      then show ?thesis by (simp add: on_page_content_page_url_def)
    qed
  qed
  show "on_page_content_page_url hello_post blog_config =
     Inr (S ''https://blog.example/posts/hello/'')"
    by (rule hello_page_url)
  have src: "src_uri (page_file hello_post) = S ''posts/hello.md''"
    by (simp add: hello_post_def)
  have lg: "S ''Added LinkedIn share button to: '' @ S ''posts/hello.md'' =
            S ''Added LinkedIn share button to: posts/hello.md''"
    by (simp add: S_def)
  show "on_page_content html hello_post blog_config files =
     Inr (html @ share_button_html
            (S ''https://www.linkedin.com/sharing/share-offsite/?url='' @
             S ''https%3A%2F%2Fblog.example%2Fposts%2Fhello%2F''),
          [S ''Added LinkedIn share button to: posts/hello.md''])"
    unfolding on_page_content_def Let_def linkedin_share_url_def
    using hello_is_post by (simp only: hello_page_url quote_hello src lg if_True sum.case)
qed

theorem content_page_url_rule_witness:
  "map_of blog_config (S ''site_url'') = Some (PyStr (S ''https://blog.example'')) \<and>
   \<not> set (S ''https://blog.example'') \<subseteq> set (S ''/'') \<and>
   on_page_content_page_url bare_post blog_config =
     Inr (rstrip (S ''https://blog.example'') (S ''/'') @ S ''/'' @
          lstrip (url bare_post) (S ''/'')) \<and>
   map_of slash_config (S ''site_url'') = Some (PyStr (S ''/'')) \<and>
   set (S ''/'') \<subseteq> set (S ''/'') \<and>
   on_page_content_page_url bare_post slash_config = Inr (url bare_post) \<and>
   map_of my_blog_config (S ''site_url'') = None \<and>
   on_page_content_page_url bare_post my_blog_config = Inr (url bare_post)"
proof -
  have a: "map_of blog_config (S ''site_url'') = Some (PyStr (S ''https://blog.example''))"
    by (simp add: blog_config_def)
  have b: "\<not> set (S ''https://blog.example'') \<subseteq> set (S ''/'')"
    by (simp add: S_def)
  have c: "map_of slash_config (S ''site_url'') = Some (PyStr (S ''/''))"
    by (simp add: slash_config_def)
  have d: "map_of my_blog_config (S ''site_url'') = None"
    by (simp add: my_blog_config_def S_def)
  show ?thesis
    using a b c d
      content_page_url_rule [of blog_config "S ''https://blog.example''" bare_post "[]" "()"]
      content_page_url_rule [of slash_config "S ''/''" bare_post "[]" "()"]
      content_page_url_rule [of my_blog_config "[]" bare_post "[]" "()"]
    by simp
qed

section \<open>Percent-encoding of the page URL\<close>

text \<open>
  C5. \<^verbatim>\<open>on_page_content\<close> encodes the absolute page URL with \<^verbatim>\<open>quote(page_url, safe="")\<close>.
  For every string there is an encoded value unless the string holds a lone surrogate;
  the encoded value consists of unreserved characters and \<^verbatim>\<open>%\<close> only, so it holds no
  reserved character of RFC 3986, in particular no raw \<^verbatim>\<open>/\<close>, \<^verbatim>\<open>?\<close>, \<^verbatim>\<open>=\<close> or space; and
  decoding it with the inverse function gives back the original URL exactly.
\<close>

theorem quote_component:
  assumes "is_pystr u"
  shows "(\<not> list_ex lone_surrogate u \<longrightarrow> (\<exists>e. quote u (S '''') = Inr e)) \<and>
         (quote u (S '''') = Inr e \<longrightarrow>
            list_all (\<lambda>c. c \<in> set always_safe \<or> c \<in> set (S ''%'')) e \<and>
            set e \<inter> set (reserved @ S '' '') = {} \<and>
            set e \<inter> set (S ''/?= '') = {} \<and>
            unquote e = Some u)"
proof (rule conjI; rule impI)
  assume "\<not> list_ex lone_surrogate u"
  then show "\<exists>e. quote u (S '''') = Inr e" by (simp add: quote_returns)
next
  assume q: "quote u (S '''') = Inr e"
  then have q': "quote u [] = Inr e" by (simp add: S_def)
  from q' obtain bs where bs: "encode_utf8 u = Inr bs" "e = quote_from_bytes bs []"
    by (auto simp: quote_def split: sum.splits)
  from utf8_decode_encode [OF bs(1) assms] have "list_all (\<lambda>b. b < 256) bs" by simp
  then have chars: "list_all (\<lambda>c. c \<in> set always_safe \<or> c \<in> set (S ''%'')) e"
    unfolding bs(2) by (rule quote_from_bytes_chars)
  then have res: "set e \<inter> set (reserved @ S '' '') = {}"
    unfolding list_all_iff using safe_not_reserved by blast
  have "set (S ''/?= '') \<subseteq> set (reserved @ S '' '')"
    by (simp add: reserved_def S_def)
  with res have four: "set e \<inter> set (S ''/?= '') = {}" by blast
  from chars res four unquote_quote [OF q' assms]
  show "list_all (\<lambda>c. c \<in> set always_safe \<or> c \<in> set (S ''%'')) e \<and>
            set e \<inter> set (reserved @ S '' '') = {} \<and>
            set e \<inter> set (S ''/?= '') = {} \<and>
            unquote e = Some u"
    by simp
qed

theorem quote_component_witness:
  "is_pystr (S ''https://x.com/posts/a b?c=d'') \<and>
   \<not> list_ex lone_surrogate (S ''https://x.com/posts/a b?c=d'') \<and>
   quote (S ''https://x.com/posts/a b?c=d'') (S '''') =
     Inr (S ''https%3A%2F%2Fx.com%2Fposts%2Fa%20b%3Fc%3Dd'') \<and>
   set (S ''https%3A%2F%2Fx.com%2Fposts%2Fa%20b%3Fc%3Dd'') \<inter> set (reserved @ S '' '') = {} \<and>
   set (S ''https%3A%2F%2Fx.com%2Fposts%2Fa%20b%3Fc%3Dd'') \<inter> set (S ''/?= '') = {} \<and>
   unquote (S ''https%3A%2F%2Fx.com%2Fposts%2Fa%20b%3Fc%3Dd'') =
     Some (S ''https://x.com/posts/a b?c=d'')"
proof -
  have s: "is_pystr (S ''https://x.com/posts/a b?c=d'')"
    by (simp add: is_pystr_def S_def)
  have n: "\<not> list_ex lone_surrogate (S ''https://x.com/posts/a b?c=d'')"
    by (simp add: lone_surrogate_def S_def)
  from quote_component [OF s, of "S ''https%3A%2F%2Fx.com%2Fposts%2Fa%20b%3Fc%3Dd''"]
    s n quote_example
  show ?thesis by blast
qed

section \<open>The two hooks build the URL differently\<close>

text \<open>
  The claim C6 reads: with a non-empty \<^verbatim>\<open>site_url\<close>, \<^verbatim>\<open>on_page_content\<close> strips the
  leading slashes of \<^verbatim>\<open>page.url\<close> and \<^verbatim>\<open>on_post_page\<close> does not, so that the URL in
  \<^verbatim>\<open>og:url\<close> has a double slash whenever \<^verbatim>\<open>page.url\<close> begins with a slash. Both hooks
  test the stripped site URL: for \<^verbatim>\<open>site_url = "/"\<close> both use \<^verbatim>\<open>page.url\<close> as it is, and
  the two URLs are the same \<^verbatim>\<open>/posts/hello/\<close>, without a double slash.
\<close>

theorem post_page_url_slash_site_counterexample:
  "get slash_config (S ''site_url'') (PyStr (S '''')) = PyStr (S ''/'') \<and>
   S ''/'' \<noteq> [] \<and>
   startswith (url hello_post) (S ''/'') \<and>
   on_post_page_page_url hello_post slash_config = Inr (S ''/posts/hello/'') \<and>
   \<not> contains (S ''//'') (S ''/posts/hello/'') \<and>
   on_page_content_page_url hello_post slash_config =
     on_post_page_page_url hello_post slash_config"
  by (simp add: hello_slash_urls)
     (simp add: hello_post_def slash_config_def get_def startswith_def S_def)

text \<open>
  C6, as amended. When \<^verbatim>\<open>site_url\<close> is a string with a character other than \<^verbatim>\<open>/\<close>:
  \<^verbatim>\<open>on_page_content\<close> joins the stripped site URL, a slash and \<^verbatim>\<open>page.url\<close> without its
  leading slashes, while \<^verbatim>\<open>on_post_page\<close> joins the stripped site URL, a slash and
  \<^verbatim>\<open>page.url\<close> as it is. So, for every \<^verbatim>\<open>page.url\<close> that begins with a slash, the URL of
  \<^verbatim>\<open>on_post_page\<close>, which is the one written into \<^verbatim>\<open>og:url\<close>, continues the stripped site
  URL with two slashes, and the URL of \<^verbatim>\<open>on_page_content\<close> does not.
\<close>

theorem page_url_asymmetry:
  assumes "map_of config (S ''site_url'') = Some (PyStr site)"
    and "\<not> set site \<subseteq> set (S ''/'')"
  shows "on_page_content_page_url page config =
           Inr (rstrip site (S ''/'') @ S ''/'' @ lstrip (url page) (S ''/'')) \<and>
         on_post_page_page_url page config =
           Inr (rstrip site (S ''/'') @ S ''/'' @ url page) \<and>
         (startswith (url page) (S ''/'') \<longrightarrow>
            startswith (rstrip site (S ''/'') @ S ''/'' @ url page)
              (rstrip site (S ''/'') @ S ''//'') \<and>
            \<not> startswith (rstrip site (S ''/'') @ S ''/'' @ lstrip (url page) (S ''/''))
              (rstrip site (S ''/'') @ S ''//'')) \<and>
         (startswith (src_uri (page_file page)) (S ''posts/'') \<and>
          on_post_page output page config = Inr (out, lg) \<and> contains (S ''<head>'') output \<longrightarrow>
            (\<exists>a b. out = a @ S ''<meta property=\"og:url\" content=\"'' @
                          (rstrip site (S ''/'') @ S ''/'' @ url page) @ S ''\" />'' @ b))"
proof -
  have g: "get config (S ''site_url'') (PyStr (S '''')) = PyStr site"
    using assms(1) by (rule get_site_url_cases)
  have ne: "rstrip site (S ''/'') \<noteq> []"
    using assms(2) by (simp add: rstrip_empty_iff)
  have content: "on_page_content_page_url page config =
           Inr (rstrip site (S ''/'') @ S ''/'' @ lstrip (url page) (S ''/''))"
    by (simp add: on_page_content_page_url_def g ne)
  have post: "on_post_page_page_url page config =
           Inr (rstrip site (S ''/'') @ S ''/'' @ url page)"
    by (simp add: on_post_page_page_url_def g ne)
  have slashes: "startswith (rstrip site (S ''/'') @ S ''/'' @ url page)
              (rstrip site (S ''/'') @ S ''//'') \<and>
            \<not> startswith (rstrip site (S ''/'') @ S ''/'' @ lstrip (url page) (S ''/''))
              (rstrip site (S ''/'') @ S ''//'')"
    if lead: "startswith (url page) (S ''/'')"
  proof
    from lead obtain t where t: "url page = S ''/'' @ t" by (auto simp: startswith_iff)
    have "rstrip site (S ''/'') @ S ''/'' @ url page = (rstrip site (S ''/'') @ S ''//'') @ t"
      unfolding t by (simp add: S_def)
    then show "startswith (rstrip site (S ''/'') @ S ''/'' @ url page)
              (rstrip site (S ''/'') @ S ''//'')"
      unfolding startswith_iff by blast
  next
    show "\<not> startswith (rstrip site (S ''/'') @ S ''/'' @ lstrip (url page) (S ''/''))
              (rstrip site (S ''/'') @ S ''//'')"
    proof
      assume "startswith (rstrip site (S ''/'') @ S ''/'' @ lstrip (url page) (S ''/''))
              (rstrip site (S ''/'') @ S ''//'')"
      then obtain t where "rstrip site (S ''/'') @ S ''/'' @ lstrip (url page) (S ''/'') =
          (rstrip site (S ''/'') @ S ''//'') @ t"
        unfolding startswith_iff by blast
      then have "lstrip (url page) (S ''/'') = S ''/'' @ t" by (simp add: S_def)
      moreover from lstrip_decomp [of "url page" "S ''/''"]
      have "lstrip (url page) (S ''/'') = [] \<or> hd (lstrip (url page) (S ''/'')) \<notin> set (S ''/'')"
        by blast
      ultimately show False by (auto simp: S_def)
    qed
  qed
  have og: "\<exists>a b. out = a @ S ''<meta property=\"og:url\" content=\"'' @
                          (rstrip site (S ''/'') @ S ''/'' @ url page) @ S ''\" />'' @ b"
    if h: "startswith (src_uri (page_file page)) (S ''posts/'')"
      "on_post_page output page config = Inr (out, lg)" "contains (S ''<head>'') output"
  proof -
    define tags where "tags = og_tags (rstrip site (S ''/'') @ S ''/'' @ url page)
        (on_post_page_page_title page config) (on_post_page_page_description page config)
        (get config (S ''site_name'') (PyStr (S '''')))"
    from h have o: "out = replace1 output (S ''<head>'') (S ''<head>'' @ tags)"
      by (simp add: on_post_page_def Let_def post tags_def)
    from replace1_first [OF h(3), of "S ''<head>'' @ tags"] obtain pre rest where
      "replace1 output (S ''<head>'') (S ''<head>'' @ tags) = pre @ (S ''<head>'' @ tags) @ rest"
      by blast
    with o have out: "out = (pre @ S ''<head>'') @ tags @ rest" by simp
    from og_tags_url_line obtain a b where
      "tags = a @ S ''<meta property=\"og:url\" content=\"'' @
              (rstrip site (S ''/'') @ S ''/'' @ url page) @ S ''\" />'' @ b"
      unfolding tags_def by blast
    with out have "out = (pre @ S ''<head>'' @ a) @ S ''<meta property=\"og:url\" content=\"'' @
              (rstrip site (S ''/'') @ S ''/'' @ url page) @ S ''\" />'' @ (b @ rest)"
      by simp
    then show ?thesis by blast
  qed
  from content post slashes og show ?thesis by blast
qed

theorem page_url_asymmetry_witness:
  "map_of blog_config (S ''site_url'') = Some (PyStr (S ''https://blog.example'')) \<and>
   \<not> set (S ''https://blog.example'') \<subseteq> set (S ''/'') \<and>
   startswith (url hello_post) (S ''/'') \<and>
   on_page_content_page_url hello_post blog_config =
     Inr (S ''https://blog.example/posts/hello/'') \<and>
   on_post_page_page_url hello_post blog_config =
     Inr (S ''https://blog.example//posts/hello/'') \<and>
   startswith (S ''https://blog.example//posts/hello/'') (S ''https://blog.example//'') \<and>
   \<not> startswith (S ''https://blog.example/posts/hello/'') (S ''https://blog.example//'') \<and>
   contains (S ''<head>'') (S ''<head></head>'') \<and>
   (\<exists>out lg a b.
      on_post_page (S ''<head></head>'') hello_post blog_config = Inr (out, lg) \<and>
      out = a @ S ''<meta property=\"og:url\" content=\"'' @
            S ''https://blog.example//posts/hello/'' @ S ''\" />'' @ b)"
proof -
  have a: "map_of blog_config (S ''site_url'') = Some (PyStr (S ''https://blog.example''))"
    by (simp add: blog_config_def)
  have b: "\<not> set (S ''https://blog.example'') \<subseteq> set (S ''/'')"
    by (simp add: S_def)
  have l: "startswith (url hello_post) (S ''/'')"
    by (simp add: hello_post_def startswith_def S_def)
  have c: "contains (S ''<head>'') (S ''<head></head>'')"
    by (simp add: startswith_def S_def)
  have e: "rstrip (S ''https://blog.example'') (S ''/'') @ S ''/'' @ url hello_post =
           S ''https://blog.example//posts/hello/''"
    "rstrip (S ''https://blog.example'') (S ''/'') @ S ''/'' @ lstrip (url hello_post) (S ''/'') =
           S ''https://blog.example/posts/hello/''"
    "rstrip (S ''https://blog.example'') (S ''/'') @ S ''//'' = S ''https://blog.example//''"
    by (simp_all add: hello_post_def rstrip_def lstrip_def S_def)
  obtain out lg where r: "on_post_page (S ''<head></head>'') hello_post blog_config = Inr (out, lg)"
    using c hello_is_post
    by (simp add: on_post_page_def Let_def hello_post_page_url)
  note t = page_url_asymmetry [OF a b, of hello_post "S ''<head></head>''" out lg, unfolded e]
  from t have u: "on_page_content_page_url hello_post blog_config =
     Inr (S ''https://blog.example/posts/hello/'')"
    "on_post_page_page_url hello_post blog_config =
     Inr (S ''https://blog.example//posts/hello/'')"
    by blast+
  from t l have s: "startswith (S ''https://blog.example//posts/hello/'') (S ''https://blog.example//'')"
    "\<not> startswith (S ''https://blog.example/posts/hello/'') (S ''https://blog.example//'')"
    by blast+
  from t hello_is_post r c have "\<exists>a b. out = a @ S ''<meta property=\"og:url\" content=\"'' @
            S ''https://blog.example//posts/hello/'' @ S ''\" />'' @ b"
    by blast
  with r have og: "\<exists>out lg a b.
      on_post_page (S ''<head></head>'') hello_post blog_config = Inr (out, lg) \<and>
      out = a @ S ''<meta property=\"og:url\" content=\"'' @
            S ''https://blog.example//posts/hello/'' @ S ''\" />'' @ b"
    by blast
  from a b l u s c og show ?thesis by blast
qed

section \<open>The two title fallbacks\<close>

text \<open>
  The claim C7 reads: the title that \<^verbatim>\<open>on_post_page\<close> writes into \<^verbatim>\<open>og:title\<close> and
  \<^verbatim>\<open>twitter:title\<close> is \<^verbatim>\<open>page.title\<close> if that is non-empty, else the site name, else the
  literal \<^verbatim>\<open>Blog Post\<close>. The function reads the site name with
  \<^verbatim>\<open>config.get("site_name", "Blog Post")\<close>, and the default stands in only for a
  configuration without the key: with no title and an empty site name the title is
  the empty string, not \<^verbatim>\<open>Blog Post\<close> (and an entry that holds \<^verbatim>\<open>None\<close> is written as
  \<^verbatim>\<open>None\<close>).
\<close>

theorem empty_site_name_title_counterexample:
  "title untitled_post = PyNone \<and>
   map_of empty_name_config (S ''site_name'') = Some (PyStr (S '''')) \<and>
   on_post_page_page_title untitled_post empty_name_config = PyStr (S '''') \<and>
   fmt (on_post_page_page_title untitled_post empty_name_config) \<noteq> S ''Blog Post'' \<and>
   on_post_page (S ''<head></head>'') untitled_post empty_name_config =
     Inr (S ''<head>'' @
          og_tags (S ''/posts/hello/'') (PyStr (S '''')) (PyStr (S ''A first post''))
            (PyStr (S '''')) @
          S ''</head>'',
          [S ''Added Open Graph meta tags to: posts/hello.md'']) \<and>
   map_of none_name_config (S ''site_name'') = Some PyNone \<and>
   fmt (on_post_page_page_title untitled_post none_name_config) = S ''None''"
  by (simp add: untitled_empty_name_page)
     (simp add: on_post_page_page_title_def py_or_def get_def untitled_post_def
      empty_name_config_def none_name_config_def S_def)

text \<open>
  C7, as amended. For every post, the title that \<^verbatim>\<open>on_post_page\<close> writes into
  \<^verbatim>\<open>og:title\<close> and \<^verbatim>\<open>twitter:title\<close> is \<^verbatim>\<open>page.title\<close> if that is a non-empty string;
  when \<^verbatim>\<open>page.title\<close> is absent or empty it is the site name of the configuration if the
  configuration has a string under \<^verbatim>\<open>site_name\<close> (an empty one too), and the literal
  \<^verbatim>\<open>Blog Post\<close> if the configuration has no \<^verbatim>\<open>site_name\<close>. The title that
  \<^verbatim>\<open>on_page_content\<close> resolves is \<^verbatim>\<open>page.title\<close> if that is a non-empty string and
  \<^verbatim>\<open>Check out this post\<close> when it is absent or empty. With no title and
  \<^verbatim>\<open>site_name = "My Blog"\<close> the first is \<^verbatim>\<open>My Blog\<close> and the second is
  \<^verbatim>\<open>Check out this post\<close>.
\<close>

theorem title_fallbacks:
  \<open>(title page = PyStr t \<and> t \<noteq> [] \<longrightarrow>
      on_post_page_page_title page config = PyStr t \<and>
      on_page_content_page_title page = PyStr t) \<and>
   (title page = PyNone \<or> title page = PyStr [] \<longrightarrow>
      (map_of config (S ''site_name'') = Some (PyStr name) \<longrightarrow>
         on_post_page_page_title page config = PyStr name) \<and>
      (map_of config (S ''site_name'') = None \<longrightarrow>
         on_post_page_page_title page config = PyStr (S ''Blog Post'')) \<and>
      on_page_content_page_title page = PyStr (S ''Check out this post'')) \<and>
   (startswith (src_uri (page_file page)) (S ''posts/'') \<and>
    on_post_page output page config = Inr (out, lg) \<and> contains (S ''<head>'') output \<longrightarrow>
      (\<exists>a b c. out =
         a @ S ''<meta property="og:title" content="'' @
             fmt (on_post_page_page_title page config) @ S ''" />'' @
         b @ S ''<meta name="twitter:title" content="'' @
             fmt (on_post_page_page_title page config) @ S ''" />'' @ c)) \<and>
   on_post_page_page_title untitled_post my_blog_config = PyStr (S ''My Blog'') \<and>
   on_page_content_page_title untitled_post = PyStr (S ''Check out this post'')\<close>
proof -
  have titled: "on_post_page_page_title page config = PyStr t \<and>
      on_page_content_page_title page = PyStr t"
    if "title page = PyStr t \<and> t \<noteq> []"
    using that by (simp add: on_post_page_page_title_def on_page_content_page_title_def py_or_def)
  have untitled: "(map_of config (S ''site_name'') = Some (PyStr name) \<longrightarrow>
         on_post_page_page_title page config = PyStr name) \<and>
      (map_of config (S ''site_name'') = None \<longrightarrow>
         on_post_page_page_title page config = PyStr (S ''Blog Post'')) \<and>
      on_page_content_page_title page = PyStr (S ''Check out this post'')"
    if "title page = PyNone \<or> title page = PyStr []"
  proof -
    from that have "\<not> truthy (title page)" by auto
    then show ?thesis
      by (simp add: on_post_page_page_title_def on_page_content_page_title_def py_or_def
          get_def)
  qed
  have og: \<open>\<exists>a b c. out =
         a @ S ''<meta property="og:title" content="'' @
             fmt (on_post_page_page_title page config) @ S ''" />'' @
         b @ S ''<meta name="twitter:title" content="'' @
             fmt (on_post_page_page_title page config) @ S ''" />'' @ c\<close>
    if h: "startswith (src_uri (page_file page)) (S ''posts/'') \<and>
      on_post_page output page config = Inr (out, lg) \<and> contains (S ''<head>'') output"
  proof -
    from h obtain page_url where
      o: "out = replace1 output (S ''<head>'')
            (S ''<head>'' @ og_tags page_url (on_post_page_page_title page config)
               (on_post_page_page_description page config)
               (get config (S ''site_name'') (PyStr (S ''''))))"
      by (auto simp: on_post_page_def Let_def split: sum.splits)
    define tags where "tags = og_tags page_url (on_post_page_page_title page config)
               (on_post_page_page_description page config)
               (get config (S ''site_name'') (PyStr (S '''')))"
    from h have "contains (S ''<head>'') output" by simp
    from replace1_first [OF this, of "S ''<head>'' @ tags"] obtain pre rest where
      "replace1 output (S ''<head>'') (S ''<head>'' @ tags) = pre @ (S ''<head>'' @ tags) @ rest"
      by blast
    with o have out: "out = (pre @ S ''<head>'') @ tags @ rest" by (simp add: tags_def)
    from og_tags_title_lines obtain a b c where
      \<open>tags = a @ S ''<meta property="og:title" content="'' @
             fmt (on_post_page_page_title page config) @ S ''" />'' @
         b @ S ''<meta name="twitter:title" content="'' @
             fmt (on_post_page_page_title page config) @ S ''" />'' @ c\<close>
      unfolding tags_def by blast
    with out have \<open>out = (pre @ S ''<head>'' @ a) @ S ''<meta property="og:title" content="'' @
             fmt (on_post_page_page_title page config) @ S ''" />'' @
         b @ S ''<meta name="twitter:title" content="'' @
             fmt (on_post_page_page_title page config) @ S ''" />'' @ (c @ rest)\<close>
      by simp
    then show ?thesis by blast
  qed
  have ex1: "on_post_page_page_title untitled_post my_blog_config = PyStr (S ''My Blog'')"
    by (simp add: on_post_page_page_title_def py_or_def get_def untitled_post_def
        my_blog_config_def)
  have ex2: "on_page_content_page_title untitled_post = PyStr (S ''Check out this post'')"
    by (simp add: on_page_content_page_title_def py_or_def untitled_post_def)
  show ?thesis
    apply (intro conjI)
        apply (rule impI, erule titled)
       apply (rule impI, erule untitled)
      apply (rule impI, erule og)
     apply (rule ex1)
    apply (rule ex2)
    done
qed

theorem title_fallbacks_witness:
  \<open>title hello_post = PyStr (S ''Hello'') \<and> S ''Hello'' \<noteq> [] \<and>
   on_post_page_page_title hello_post my_blog_config = PyStr (S ''Hello'') \<and>
   on_page_content_page_title hello_post = PyStr (S ''Hello'') \<and>
   title untitled_post = PyNone \<and>
   map_of my_blog_config (S ''site_name'') = Some (PyStr (S ''My Blog'')) \<and>
   on_post_page_page_title untitled_post my_blog_config = PyStr (S ''My Blog'') \<and>
   on_page_content_page_title untitled_post = PyStr (S ''Check out this post'') \<and>
   title empty_title_post = PyStr [] \<and>
   map_of blog_config (S ''site_name'') = None \<and>
   on_post_page_page_title empty_title_post blog_config = PyStr (S ''Blog Post'') \<and>
   on_page_content_page_title empty_title_post = PyStr (S ''Check out this post'') \<and>
   startswith (src_uri (page_file untitled_post)) (S ''posts/'') \<and>
   contains (S ''<head>'') (S ''<head></head>'') \<and>
   (\<exists>out lg a b c.
      on_post_page (S ''<head></head>'') untitled_post my_blog_config = Inr (out, lg) \<and>
      out = a @ S ''<meta property="og:title" content="'' @ S ''My Blog'' @ S ''" />'' @
            b @ S ''<meta name="twitter:title" content="'' @ S ''My Blog'' @ S ''" />'' @ c)\<close>
proof -
  note p = untitled_is_post
  have c: "contains (S ''<head>'') (S ''<head></head>'')"
    by (simp add: startswith_def S_def)
  have t1: "title hello_post = PyStr (S ''Hello'') \<and> S ''Hello'' \<noteq> []"
    by (simp add: hello_post_def S_def)
  have t2: "title untitled_post = PyNone \<or> title untitled_post = PyStr []"
    and t2': "title untitled_post = PyNone"
    by (simp_all add: untitled_post_def)
  have t3: "title empty_title_post = PyNone \<or> title empty_title_post = PyStr []"
    and t3': "title empty_title_post = PyStr []"
    by (simp_all add: empty_title_post_def S_def)
  have m: "map_of my_blog_config (S ''site_name'') = Some (PyStr (S ''My Blog''))"
    by (simp add: my_blog_config_def)
  have n: "map_of blog_config (S ''site_name'') = None"
    by (simp add: blog_config_def S_def)
  obtain out lg where
    r: "on_post_page (S ''<head></head>'') untitled_post my_blog_config = Inr (out, lg)"
    using c p
    by (simp add: on_post_page_def Let_def on_post_page_page_url_def get_def rstrip_def
        my_blog_config_def S_def)
  note a = title_fallbacks [of hello_post "S ''Hello''" my_blog_config "[]" "[]" "[]" "[]"]
  note b = title_fallbacks [of untitled_post "[]" my_blog_config "S ''My Blog''"
      "S ''<head></head>''" out lg]
  note d = title_fallbacks [of empty_title_post "[]" blog_config "[]" "[]" "[]" "[]"]
  from a t1 have e1: "on_post_page_page_title hello_post my_blog_config = PyStr (S ''Hello'')"
    "on_page_content_page_title hello_post = PyStr (S ''Hello'')"
    by blast+
  from b t2 m have e2: "on_post_page_page_title untitled_post my_blog_config = PyStr (S ''My Blog'')"
    "on_page_content_page_title untitled_post = PyStr (S ''Check out this post'')"
    by blast+
  from d t3 n have e3: "on_post_page_page_title empty_title_post blog_config = PyStr (S ''Blog Post'')"
    "on_page_content_page_title empty_title_post = PyStr (S ''Check out this post'')"
    by blast+
  from b p r c have \<open>\<exists>a b c. out =
         a @ S ''<meta property="og:title" content="'' @
             fmt (on_post_page_page_title untitled_post my_blog_config) @ S ''" />'' @
         b @ S ''<meta name="twitter:title" content="'' @
             fmt (on_post_page_page_title untitled_post my_blog_config) @ S ''" />'' @ c\<close>
    by blast
  then have \<open>\<exists>a b c. out =
         a @ S ''<meta property="og:title" content="'' @ S ''My Blog'' @ S ''" />'' @
         b @ S ''<meta name="twitter:title" content="'' @ S ''My Blog'' @ S ''" />'' @ c\<close>
    unfolding e2 by simp
  with r have og: \<open>\<exists>out lg a b c.
      on_post_page (S ''<head></head>'') untitled_post my_blog_config = Inr (out, lg) \<and>
      out = a @ S ''<meta property="og:title" content="'' @ S ''My Blog'' @ S ''" />'' @
            b @ S ''<meta name="twitter:title" content="'' @ S ''My Blog'' @ S ''" />'' @ c\<close>
    by blast
  from t1 e1 t2' m e2 t3' n e3 p c og show ?thesis by (intro conjI) simp_all
qed

section \<open>The emitted markup\<close>

text \<open>
  C8. For every post, the anchor that \<^verbatim>\<open>on_page_content\<close> appends has the href
  \<^verbatim>\<open>https://www.linkedin.com/sharing/share-offsite/?url=\<close> followed by the percent-encoded
  absolute URL, and the block that \<^verbatim>\<open>on_post_page\<close> inserts is the block of the markup
  contract: \<^verbatim>\<open>og:type\<close> (\<^verbatim>\<open>article\<close>), \<^verbatim>\<open>og:url\<close>, \<^verbatim>\<open>og:title\<close>, \<^verbatim>\<open>og:description\<close>,
  \<^verbatim>\<open>og:site_name\<close>, \<^verbatim>\<open>twitter:card\<close> (\<^verbatim>\<open>summary_large_image\<close>), \<^verbatim>\<open>twitter:title\<close> and
  \<^verbatim>\<open>twitter:description\<close>, with the values written as they are, not HTML-escaped.
\<close>

theorem emitted_markup:
  \<open>(startswith (src_uri (page_file page)) (S ''posts/'') \<and>
    on_page_content html page config files = Inr (out, lg) \<longrightarrow>
      (\<exists>page_url encoded_url a b.
         on_page_content_page_url page config = Inr page_url \<and>
         quote page_url (S '''') = Inr encoded_url \<and>
         out = html @ a @ S ''<a href="https://www.linkedin.com/sharing/share-offsite/?url='' @
                 encoded_url @ S ''"'' @ b)) \<and>
   (startswith (src_uri (page_file page)) (S ''posts/'') \<and>
    on_post_page output page config = Inr (out', lg') \<and> contains (S ''<head>'') output \<longrightarrow>
      (\<exists>page_url pre rest.
         on_post_page_page_url page config = Inr page_url \<and>
         output = pre @ S ''<head>'' @ rest \<and>
         out' = pre @ S ''<head>'' @
                spec_og_block page_url (fmt (on_post_page_page_title page config))
                  (fmt (on_post_page_page_description page config))
                  (fmt (get config (S ''site_name'') (PyStr (S '''')))) @ rest)) \<and>
   og_tags u (PyStr t) (PyStr d) (PyStr n) = spec_og_block u t d n\<close>
proof -
  have content: \<open>\<exists>page_url encoded_url a b.
         on_page_content_page_url page config = Inr page_url \<and>
         quote page_url (S '''') = Inr encoded_url \<and>
         out = html @ a @ S ''<a href="https://www.linkedin.com/sharing/share-offsite/?url='' @
                 encoded_url @ S ''"'' @ b\<close>
    if h: "startswith (src_uri (page_file page)) (S ''posts/'')"
      "on_page_content html page config files = Inr (out, lg)"
  proof -
    from h obtain page_url encoded_url where
      u: "on_page_content_page_url page config = Inr page_url"
        "quote page_url (S '''') = Inr encoded_url"
        "out = html @ share_button_html (linkedin_share_url encoded_url)"
      by (auto simp: on_page_content_def Let_def split: sum.splits)
    from share_button_html_href [of encoded_url] u show ?thesis by blast
  qed
  have post: \<open>\<exists>page_url pre rest.
         on_post_page_page_url page config = Inr page_url \<and>
         output = pre @ S ''<head>'' @ rest \<and>
         out' = pre @ S ''<head>'' @
                spec_og_block page_url (fmt (on_post_page_page_title page config))
                  (fmt (on_post_page_page_description page config))
                  (fmt (get config (S ''site_name'') (PyStr (S '''')))) @ rest\<close>
    if h: "startswith (src_uri (page_file page)) (S ''posts/'')"
      "on_post_page output page config = Inr (out', lg')" "contains (S ''<head>'') output"
  proof -
    from h obtain page_url where
      u: "on_post_page_page_url page config = Inr page_url"
      and o: "out' = replace1 output (S ''<head>'')
            (S ''<head>'' @ og_tags page_url (on_post_page_page_title page config)
               (on_post_page_page_description page config)
               (get config (S ''site_name'') (PyStr (S ''''))))"
      by (auto simp: on_post_page_def Let_def split: sum.splits)
    define tags where "tags = spec_og_block page_url (fmt (on_post_page_page_title page config))
                  (fmt (on_post_page_page_description page config))
                  (fmt (get config (S ''site_name'') (PyStr (S ''''))))"
    have o': "out' = replace1 output (S ''<head>'') (S ''<head>'' @ tags)"
      unfolding o og_tags_spec tags_def ..
    from replace1_first [OF h(3), of "S ''<head>'' @ tags"] obtain pre rest where
      "output = pre @ S ''<head>'' @ rest"
      "replace1 output (S ''<head>'') (S ''<head>'' @ tags) = pre @ (S ''<head>'' @ tags) @ rest"
      by blast
    with o' have "output = pre @ S ''<head>'' @ rest" "out' = pre @ S ''<head>'' @ tags @ rest"
      by simp_all
    with u show ?thesis unfolding tags_def by blast
  qed
  have raw: "og_tags u (PyStr t) (PyStr d) (PyStr n) = spec_og_block u t d n"
    by (simp add: og_tags_spec)
  show ?thesis
    apply (rule conjI)
     apply (rule impI, erule conjE, erule (1) content)
    apply (rule conjI)
     apply (rule impI, (erule conjE)+, erule (2) post)
    apply (rule raw)
    done
qed

theorem emitted_markup_witness:
  \<open>startswith (src_uri (page_file hello_post)) (S ''posts/'') \<and>
   (\<exists>out lg a b.
      on_page_content (S ''<p>Hi</p>'') hello_post blog_config () = Inr (out, lg) \<and>
      out = S ''<p>Hi</p>'' @ a @
            S ''<a href="https://www.linkedin.com/sharing/share-offsite/?url='' @
            S ''https%3A%2F%2Fblog.example%2Fposts%2Fhello%2F'' @ S ''"'' @ b) \<and>
   contains (S ''<head>'') (S ''<head></head>'') \<and>
   (\<exists>out lg page_url pre rest.
      on_post_page (S ''<head></head>'') hello_post blog_config = Inr (out, lg) \<and>
      on_post_page_page_url hello_post blog_config = Inr page_url \<and>
      S ''<head></head>'' = pre @ S ''<head>'' @ rest \<and>
      out = pre @ S ''<head>'' @
            spec_og_block page_url (fmt (on_post_page_page_title hello_post blog_config))
              (fmt (on_post_page_page_description hello_post blog_config))
              (fmt (get blog_config (S ''site_name'') (PyStr (S '''')))) @ rest) \<and>
   on_post_page (S ''<head></head>'') markup_post blog_config =
     Inr (S ''<head>'' @
          spec_og_block (S ''https://blog.example/posts/markup/'') (S ''<b>"A&B"</b>'')
            (S '''') (S '''') @
          S ''</head>'',
          [S ''Added Open Graph meta tags to: posts/markup.md''])\<close>
proof -
  note p = hello_is_post
  have c: "contains (S ''<head>'') (S ''<head></head>'')"
    by (simp add: startswith_def S_def)
  obtain out lg where
    r1: "on_page_content (S ''<p>Hi</p>'') hello_post blog_config () = Inr (out, lg)"
    using p by (simp add: on_page_content_def Let_def hello_page_url quote_hello)
  obtain out' lg' where
    r2: "on_post_page (S ''<head></head>'') hello_post blog_config = Inr (out', lg')"
    using p c by (simp add: on_post_page_def Let_def hello_post_page_url)
  note t = emitted_markup [of hello_post "S ''<p>Hi</p>''" blog_config "()" out lg
      "S ''<head></head>''" out' lg' "S ''https://blog.example/posts/markup/''"
      \<open>S ''<b>"A&B"</b>''\<close> "S ''''" "S ''''"]
  from t p r1 have \<open>\<exists>page_url encoded_url a b.
         on_page_content_page_url hello_post blog_config = Inr page_url \<and>
         quote page_url (S '''') = Inr encoded_url \<and>
         out = S ''<p>Hi</p>'' @ a @
               S ''<a href="https://www.linkedin.com/sharing/share-offsite/?url='' @
                 encoded_url @ S ''"'' @ b\<close>
    by blast
  then have \<open>\<exists>a b. out = S ''<p>Hi</p>'' @ a @
            S ''<a href="https://www.linkedin.com/sharing/share-offsite/?url='' @
            S ''https%3A%2F%2Fblog.example%2Fposts%2Fhello%2F'' @ S ''"'' @ b\<close>
    by (auto simp: hello_page_url quote_hello)
  with r1 have one: \<open>\<exists>out lg a b.
      on_page_content (S ''<p>Hi</p>'') hello_post blog_config () = Inr (out, lg) \<and>
      out = S ''<p>Hi</p>'' @ a @
            S ''<a href="https://www.linkedin.com/sharing/share-offsite/?url='' @
            S ''https%3A%2F%2Fblog.example%2Fposts%2Fhello%2F'' @ S ''"'' @ b\<close>
    by blast
  from t p r2 c have \<open>\<exists>page_url pre rest.
      on_post_page_page_url hello_post blog_config = Inr page_url \<and>
      S ''<head></head>'' = pre @ S ''<head>'' @ rest \<and>
      out' = pre @ S ''<head>'' @
            spec_og_block page_url (fmt (on_post_page_page_title hello_post blog_config))
              (fmt (on_post_page_page_description hello_post blog_config))
              (fmt (get blog_config (S ''site_name'') (PyStr (S '''')))) @ rest\<close>
    by blast
  with r2 have two: \<open>\<exists>out lg page_url pre rest.
      on_post_page (S ''<head></head>'') hello_post blog_config = Inr (out, lg) \<and>
      on_post_page_page_url hello_post blog_config = Inr page_url \<and>
      S ''<head></head>'' = pre @ S ''<head>'' @ rest \<and>
      out = pre @ S ''<head>'' @
            spec_og_block page_url (fmt (on_post_page_page_title hello_post blog_config))
              (fmt (on_post_page_page_description hello_post blog_config))
              (fmt (get blog_config (S ''site_name'') (PyStr (S '''')))) @ rest\<close>
    by blast
  from t have raw: \<open>og_tags (S ''https://blog.example/posts/markup/'') (PyStr (S ''<b>"A&B"</b>''))
            (PyStr (S '''')) (PyStr (S '''')) =
     spec_og_block (S ''https://blog.example/posts/markup/'') (S ''<b>"A&B"</b>'') (S '''') (S '''')\<close>
    by blast
  have three: \<open>on_post_page (S ''<head></head>'') markup_post blog_config =
     Inr (S ''<head>'' @
          spec_og_block (S ''https://blog.example/posts/markup/'') (S ''<b>"A&B"</b>'')
            (S '''') (S '''') @
          S ''</head>'',
          [S ''Added Open Graph meta tags to: posts/markup.md''])\<close>
    unfolding markup_post_page raw ..
  from p one c two three show ?thesis by (intro conjI)
qed

section \<open>The share button does not depend on title or description\<close>

text \<open>
  C9. What \<^verbatim>\<open>on_page_content\<close> returns depends on the path and the URL of the page and on
  the \<^verbatim>\<open>site_url\<close> of the configuration only: two calls on the same HTML whose pages
  agree on path and URL and whose configurations agree on \<^verbatim>\<open>site_url\<close> give the same
  result, however the titles, the page descriptions and the site descriptions differ.
\<close>

theorem on_page_content_ignores_title_and_description:
  assumes "src_uri (page_file page1) = src_uri (page_file page2)"
    and "url page1 = url page2"
    and "map_of config1 (S ''site_url'') = map_of config2 (S ''site_url'')"
  shows "on_page_content html page1 config1 files1 = on_page_content html page2 config2 files2"
proof -
  have "on_page_content_page_url page1 config1 = on_page_content_page_url page2 config2"
    unfolding on_page_content_page_url_def get_def assms(2,3) by (rule refl)
  then show ?thesis
    using assms(1) by (simp add: on_page_content_def Let_def split: sum.splits)
qed

theorem on_page_content_ignores_title_and_description_witness:
  "src_uri (page_file hello_post) = src_uri (page_file untitled_post) \<and>
   url hello_post = url untitled_post \<and>
   map_of blog_config (S ''site_url'') = map_of described_config (S ''site_url'') \<and>
   on_page_content_page_title hello_post \<noteq> on_page_content_page_title untitled_post \<and>
   on_page_content_page_description hello_post blog_config \<noteq>
     on_page_content_page_description untitled_post described_config \<and>
   on_page_content (S ''<p>Hi</p>'') hello_post blog_config () =
     on_page_content (S ''<p>Hi</p>'') untitled_post described_config ()"
proof -
  have a: "src_uri (page_file hello_post) = src_uri (page_file untitled_post)"
    by (simp add: hello_post_def untitled_post_def)
  have b: "url hello_post = url untitled_post"
    by (simp add: hello_post_def untitled_post_def)
  have c: "map_of blog_config (S ''site_url'') = map_of described_config (S ''site_url'')"
    by (simp add: blog_config_def described_config_def S_def)
  have t: "on_page_content_page_title hello_post \<noteq> on_page_content_page_title untitled_post"
    by (simp add: on_page_content_page_title_def py_or_def hello_post_def untitled_post_def S_def)
  have d: "on_page_content_page_description hello_post blog_config \<noteq>
     on_page_content_page_description untitled_post described_config"
    by (simp add: on_page_content_page_description_def get_def hello_post_def untitled_post_def
        blog_config_def described_config_def S_def)
  from on_page_content_ignores_title_and_description [OF a b c, of "S ''<p>Hi</p>''" "()" "()"]
    a b c t d
  show ?thesis by blast
qed

section \<open>When the hooks raise\<close>

text \<open>
  On a post, \<^verbatim>\<open>on_post_page\<close> returns exactly when \<^verbatim>\<open>config.get("site_url", "")\<close> is not
  \<^verbatim>\<open>None\<close>, and \<^verbatim>\<open>on_page_content\<close> exactly when, moreover, the absolute URL holds no
  lone surrogate.
\<close>

lemma page_url_returns_iff:
  "(\<exists>u. on_page_content_page_url page config = Inr u) \<longleftrightarrow>
     get config (S ''site_url'') (PyStr (S '''')) \<noteq> PyNone"
  "(\<exists>u. on_post_page_page_url page config = Inr u) \<longleftrightarrow>
     get config (S ''site_url'') (PyStr (S '''')) \<noteq> PyNone"
  by (cases "get config (S ''site_url'') (PyStr (S ''''))";
      simp add: on_page_content_page_url_def on_post_page_page_url_def)+

lemma on_page_content_returns_iff:
  assumes "startswith (src_uri (page_file page)) (S ''posts/'')"
  shows "(\<exists>r. on_page_content html page config files = Inr r) \<longleftrightarrow>
         (\<exists>u. on_page_content_page_url page config = Inr u \<and> \<not> list_ex lone_surrogate u)"
proof (cases "on_page_content_page_url page config")
  case (Inl e)
  with assms show ?thesis by (simp add: on_page_content_def)
next
  case (Inr u)
  show ?thesis
  proof (cases "quote u (S '''')")
    case (Inl e)
    then have "list_ex lone_surrogate u" using quote_returns [of u "S ''''"] by auto
    with assms Inr Inl show ?thesis by (simp add: on_page_content_def Let_def)
  next
    case enc: (Inr e)
    then have "\<not> list_ex lone_surrogate u" using quote_returns [of u "S ''''"] by auto
    with assms Inr enc show ?thesis by (simp add: on_page_content_def Let_def)
  qed
qed

lemma on_post_page_returns_iff:
  assumes "startswith (src_uri (page_file page)) (S ''posts/'')"
  shows "(\<exists>r. on_post_page output page config = Inr r) \<longleftrightarrow>
         get config (S ''site_url'') (PyStr (S '''')) \<noteq> PyNone"
proof (cases "on_post_page_page_url page config")
  case (Inl e)
  with assms page_url_returns_iff(2) [of page config] show ?thesis
    by (auto simp: on_post_page_def)
next
  case (Inr u)
  with assms page_url_returns_iff(2) [of page config] show ?thesis
    by (auto simp: on_post_page_def Let_def)
qed

text \<open>The description that each hook resolves.\<close>

lemma description_fallbacks:
  "on_post_page_page_description page config =
     (case meta page of
        None \<Rightarrow> get config (S ''site_description'') (PyStr (S ''''))
      | Some m \<Rightarrow>
          (case map_of m (S ''description'') of
             None \<Rightarrow> get config (S ''site_description'') (PyStr (S ''''))
           | Some d \<Rightarrow> d))"
  "on_page_content_page_description page config =
     (case meta page of
        None \<Rightarrow> get config (S ''site_description'') (PyStr (S ''''))
      | Some m \<Rightarrow>
          (case map_of m (S ''description'') of
             None \<Rightarrow> get config (S ''site_description'') (PyStr (S ''''))
           | Some d \<Rightarrow> if truthy d then d else get config (S ''site_description'') (PyStr (S ''''))))"
  by (cases "meta page"; cases "the (meta page)";
      simp add: on_post_page_page_description_def on_page_content_page_description_def
        get_def S_def split: option.splits)+

text \<open>
  C10 says that both hooks return a string on every input, missing settings falling
  back to their defaults. The hooks read the site URL with
  \<^verbatim>\<open>config.get("site_url", "").rstrip("/")\<close>: the default covers a configuration without
  the key, but MkDocs keeps every setting under its key and stores \<^verbatim>\<open>None\<close> for a
  \<^verbatim>\<open>site_url\<close> that is not set. On such a configuration both hooks raise
  \<^verbatim>\<open>AttributeError\<close> on every post. In the same way a \<^verbatim>\<open>site_description\<close> that is not
  set reaches the template as \<^verbatim>\<open>None\<close>, and \<^verbatim>\<open>og:description\<close> reads \<^verbatim>\<open>None\<close> instead
  of being empty.
\<close>

theorem unset_site_url_raises:
  "get unset_config (S ''site_url'') (PyStr (S '''')) = PyNone \<and>
   startswith (src_uri (page_file hello_post)) (S ''posts/'') \<and>
   on_page_content (S ''<p>Hi</p>'') hello_post unset_config () = Inl AttributeError \<and>
   on_post_page (S ''<head></head>'') hello_post unset_config = Inl AttributeError \<and>
   get undescribed_config (S ''site_description'') (PyStr (S '''')) = PyNone \<and>
   fmt (on_post_page_page_description hello_post undescribed_config) = S ''None''"
proof -
  have g: "get unset_config (S ''site_url'') (PyStr (S '''')) = PyNone"
    by (simp add: get_def unset_config_def S_def)
  then have "on_page_content_page_url hello_post unset_config = Inl AttributeError"
    "on_post_page_page_url hello_post unset_config = Inl AttributeError"
    by (simp_all add: on_page_content_page_url_def on_post_page_page_url_def)
  moreover have d: "get undescribed_config (S ''site_description'') (PyStr (S '''')) = PyNone"
    by (simp add: get_def undescribed_config_def S_def)
  moreover from d have "on_post_page_page_description hello_post undescribed_config = PyNone"
    by (simp add: on_post_page_page_description_def hello_post_def)
  ultimately show ?thesis
    using g hello_is_post by (simp add: on_page_content_def on_post_page_def)
qed

end
